theory Spec2Isabelle
  imports Main
begin

section \<open>The sample-file loaders of \<^verbatim>\<open>llmware/setup.py\<close>\<close>

text \<open>
  The module has one private helper, \<^verbatim>\<open>Setup._download_and_unpack\<close>, and three public
  static methods, \<^verbatim>\<open>load_sample_files\<close>, \<^verbatim>\<open>load_voice_sample_files\<close> and
  \<^verbatim>\<open>load_selected_sample_files\<close>. Each of them is a straight line of directory checks,
  one fetch from a storage bucket, one archive extraction and one file deletion.

  The embedding threads a world through every call: the local filesystem, the state of
  everything outside the process (the bucket, the network), the list of calls made to the
  collaborators, and the log. A Python exception is a value; a computation returns either
  the exception it raised (\<open>Inl\<close>) or its result (\<open>Inr\<close>), together with the world it left.
\<close>

subsection \<open>Paths (\<^verbatim>\<open>pathlib.PurePosixPath\<close>)\<close>

text \<open>
  A path is its root (\<^verbatim>\<open>""\<close>, \<^verbatim>\<open>"/"\<close> or \<^verbatim>\<open>"//"\<close>) and its components. Parsing drops empty
  components and \<^verbatim>\<open>"."\<close>, keeps \<^verbatim>\<open>".."\<close>, and keeps exactly two leading slashes, as
  \<^verbatim>\<open>pathlib\<close> does on POSIX.
\<close>

datatype path = PurePath (root: string) (parts: "string list")

fun split_on :: "char \<Rightarrow> string \<Rightarrow> string list" where
  "split_on c [] = [[]]"
| "split_on c (x # xs) =
     (if x = c then [] # split_on c xs
      else (case split_on c xs of
              [] \<Rightarrow> [[x]]
            | h # t \<Rightarrow> (x # h) # t))"

definition parse_root :: "string \<Rightarrow> string" where
  "parse_root s =
     (if take 2 s = ''//'' \<and> take 3 s \<noteq> ''///'' then ''//''
      else if take 1 s = ''/'' then ''/''
      else [])"

definition parse_parts :: "string \<Rightarrow> string list" where
  "parse_parts s = filter (\<lambda>c. c \<noteq> [] \<and> c \<noteq> ''.'') (split_on (CHR ''/'') s)"

definition Path :: "string \<Rightarrow> path" where
  "Path s = PurePath (parse_root s) (parse_parts s)"

text \<open>
  \<^verbatim>\<open>p / s\<close>: an absolute right operand replaces the left one, a relative one is appended.
\<close>

definition joinpath :: "path \<Rightarrow> string \<Rightarrow> path" where
  "joinpath p s =
     (let q = Path s
      in if root q \<noteq> [] then q else PurePath (root p) (parts p @ parts q))"

fun join_slash :: "string list \<Rightarrow> string" where
  "join_slash [] = []"
| "join_slash [x] = x"
| "join_slash (x # y # ys) = x @ ''/'' @ join_slash (y # ys)"

text \<open>\<^verbatim>\<open>str(p)\<close>\<close>

definition str :: "path \<Rightarrow> string" where
  "str p = (if root p = [] \<and> parts p = [] then ''.'' else root p @ join_slash (parts p))"

text \<open>\<^verbatim>\<open>p.parent\<close>\<close>

definition parent :: "path \<Rightarrow> path" where
  "parent p = PurePath (root p) (butlast (parts p))"

subsection \<open>Exceptions\<close>

text \<open>
  An exception object: its class name, whether that class derives from \<^verbatim>\<open>Exception\<close>
  (\<^verbatim>\<open>KeyboardInterrupt\<close>, \<^verbatim>\<open>SystemExit\<close> and \<^verbatim>\<open>GeneratorExit\<close> derive from
  \<^verbatim>\<open>BaseException\<close> only), what \<^verbatim>\<open>str(e)\<close> gives, and \<^verbatim>\<open>e.__cause__\<close>.
\<close>

datatype pyexn =
  PyExn (exn_class: string) (exn_is_Exception: bool) (exn_msg: string) (exn_cause: "pyexn option")

definition RuntimeError :: "string \<Rightarrow> pyexn option \<Rightarrow> pyexn" where
  "RuntimeError msg cause = PyExn ''RuntimeError'' True msg cause"

definition FileExistsError :: "string \<Rightarrow> pyexn" where
  "FileExistsError msg = PyExn ''FileExistsError'' True msg None"

definition FileNotFoundError :: "string \<Rightarrow> pyexn" where
  "FileNotFoundError msg = PyExn ''FileNotFoundError'' True msg None"

definition NotADirectoryError :: "string \<Rightarrow> pyexn" where
  "NotADirectoryError msg = PyExn ''NotADirectoryError'' True msg None"

definition IsADirectoryError :: "string \<Rightarrow> pyexn" where
  "IsADirectoryError msg = PyExn ''IsADirectoryError'' True msg None"

subsection \<open>The filesystem\<close>

text \<open>
  A file's bytes are kept abstract: either a zip archive with its members (name and data),
  or any other data. The filesystem maps a path to what is there. The root and the current
  directory (a path with no components) always exist and are directories. Paths are looked
  up as they are written: \<^verbatim>\<open>..\<close> and symbolic links are not resolved, and there are no
  permissions, so the only errors of \<^verbatim>\<open>mkdir\<close> and \<^verbatim>\<open>unlink\<close> are those of an entry that
  is missing, in the way, or of the wrong kind.
\<close>

datatype content = Blob string | ZipArchive "(string \<times> string) list"

datatype node = Dir | File content

type_synonym filesys = "path \<Rightarrow> node option"

definition node_at :: "filesys \<Rightarrow> path \<Rightarrow> node option" where
  "node_at f p = (if parts p = [] then Some Dir else f p)"

text \<open>\<^verbatim>\<open>p.exists()\<close> and \<^verbatim>\<open>p.is_dir()\<close>\<close>

definition path_exists :: "filesys \<Rightarrow> path \<Rightarrow> bool" where
  "path_exists f p \<longleftrightarrow> node_at f p \<noteq> None"

definition path_is_dir :: "filesys \<Rightarrow> path \<Rightarrow> bool" where
  "path_is_dir f p \<longleftrightarrow> node_at f p = Some Dir"

text \<open>
  \<^verbatim>\<open>os.mkdir(p)\<close>: the entry must not exist, its parent must be a directory.
\<close>

definition os_mkdir :: "path \<Rightarrow> filesys \<Rightarrow> pyexn + filesys" where
  "os_mkdir p f =
     (if path_exists f p then Inl (FileExistsError (str p))
      else (case node_at f (parent p) of
              None \<Rightarrow> Inl (FileNotFoundError (str p))
            | Some (File _) \<Rightarrow> Inl (NotADirectoryError (str p))
            | Some Dir \<Rightarrow> Inr (f(p \<mapsto> Dir))))"

text \<open>
  \<^verbatim>\<open>Path.mkdir\<close> of pathlib:
  \<^verbatim>\<open>
    try:
        os.mkdir(self, mode)
    except FileNotFoundError:
        if not parents or self.parent == self:
            raise
        self.parent.mkdir(parents=True, exist_ok=True)
        self.mkdir(mode, parents=False, exist_ok=exist_ok)
    except OSError:
        if not exist_ok or not self.is_dir():
            raise
  \<close>
  \<open>mkdir_single\<close> is the call with \<^verbatim>\<open>parents=False, exist_ok=True\<close>; \<open>mkdir_parents\<close> is the
  call with \<^verbatim>\<open>parents=True, exist_ok=True\<close>, recursing over the components, last one first.
\<close>

definition mkdir_single :: "path \<Rightarrow> filesys \<Rightarrow> pyexn + filesys" where
  "mkdir_single p f =
     (case os_mkdir p f of
        Inr f' \<Rightarrow> Inr f'
      | Inl e \<Rightarrow>
          if exn_class e = ''FileNotFoundError'' then Inl e
          else if path_is_dir f p then Inr f
          else Inl e)"

fun mkdir_parents :: "string \<Rightarrow> string list \<Rightarrow> filesys \<Rightarrow> pyexn + filesys" where
  "mkdir_parents r [] f = mkdir_single (PurePath r []) f"
| "mkdir_parents r (x # rps) f =
     (let p = PurePath r (rev (x # rps))
      in case os_mkdir p f of
           Inr f' \<Rightarrow> Inr f'
         | Inl e \<Rightarrow>
             if exn_class e = ''FileNotFoundError'' then
               (case mkdir_parents r rps f of
                  Inl e' \<Rightarrow> Inl e'
                | Inr f1 \<Rightarrow> mkdir_single p f1)
             else if path_is_dir f p then Inr f
             else Inl e)"

text \<open>\<^verbatim>\<open>p.mkdir(parents=True, exist_ok=True)\<close>\<close>

definition mkdir :: "path \<Rightarrow> filesys \<Rightarrow> pyexn + filesys" where
  "mkdir p f = mkdir_parents (root p) (rev (parts p)) f"

text \<open>\<^verbatim>\<open>p.unlink()\<close>: removes a file, raises on a missing entry and on a directory.\<close>

definition unlink :: "path \<Rightarrow> filesys \<Rightarrow> pyexn + filesys" where
  "unlink p f =
     (case node_at f p of
        None \<Rightarrow> Inl (FileNotFoundError (str p))
      | Some Dir \<Rightarrow> Inl (IsADirectoryError (str p))
      | Some (File _) \<Rightarrow> Inr (f(p := None)))"

subsection \<open>Collaborators, world and computations\<close>

text \<open>
  \<^verbatim>\<open>LLMWareConfig\<close> and \<^verbatim>\<open>CloudBucketManager\<close> live in other modules of the package, and
  \<^verbatim>\<open>shutil.unpack_archive\<close> in the standard library. They are parameters of the model: a
  collaborator may read and change the filesystem and the outside world in any way, and
  may raise. Nothing is assumed about them unless a theorem says so. The two values read
  from the configuration (\<^verbatim>\<open>get_llmware_path()\<close> and \<^verbatim>\<open>get_config(key)\<close>) are fixed for
  the calls a theorem speaks of, and constructing \<^verbatim>\<open>CloudBucketManager()\<close> has no effect:
  the bucket manager handed to \<^verbatim>\<open>_download_and_unpack\<close> is the environment itself.
\<close>

type_synonym 'x collab = "filesys \<times> 'x \<Rightarrow> (pyexn + unit) \<times> (filesys \<times> 'x)"

record 'x env =
  cfg_llmware_path :: string
  cfg_config :: "string \<Rightarrow> string"
  ext_setup_llmware_workspace :: "'x collab"
  ext_pull_file_from_public_s3 :: "string \<Rightarrow> string \<Rightarrow> string \<Rightarrow> 'x collab"
  ext_unpack_archive :: "string \<Rightarrow> string \<Rightarrow> string \<Rightarrow> 'x collab"

datatype call =
  SetupWorkspace
| PullFile string string string
| UnpackArchive string string string

datatype log_record = LogInfo string | LogError string

record 'x world =
  files :: filesys
  outside :: 'x
  calls :: "call list"
  log :: "log_record list"

type_synonym ('x, 'a) prog = "'x world \<Rightarrow> (pyexn + 'a) \<times> 'x world"

definition return :: "'a \<Rightarrow> ('x, 'a) prog" where
  "return x w = (Inr x, w)"

definition raise :: "pyexn \<Rightarrow> ('x, 'a) prog" where
  "raise e w = (Inl e, w)"

text \<open>Sequencing: an exception of the first statement skips the rest.\<close>

definition then_do :: "('x, 'a) prog \<Rightarrow> ('a \<Rightarrow> ('x, 'b) prog) \<Rightarrow> ('x, 'b) prog" where
  "then_do m k w =
     (case m w of
        (Inl e, w') \<Rightarrow> (Inl e, w')
      | (Inr x, w') \<Rightarrow> k x w')"

text \<open>
  \<^verbatim>\<open>try: ... except Exception as e: ...\<close>: the handler runs for instances of \<^verbatim>\<open>Exception\<close>
  only; anything else propagates.
\<close>

definition try_except_Exception ::
  "('x, 'a) prog \<Rightarrow> (pyexn \<Rightarrow> ('x, 'a) prog) \<Rightarrow> ('x, 'a) prog" where
  "try_except_Exception body handler w =
     (case body w of
        (Inl e, w') \<Rightarrow> if exn_is_Exception e then handler e w' else (Inl e, w')
      | (Inr x, w') \<Rightarrow> (Inr x, w'))"

definition on_files :: "(filesys \<Rightarrow> pyexn + filesys) \<Rightarrow> ('x, unit) prog" where
  "on_files op w =
     (case op (files w) of
        Inl e \<Rightarrow> (Inl e, w)
      | Inr f \<Rightarrow> (Inr (), w\<lparr>files := f\<rparr>))"

definition exists :: "path \<Rightarrow> ('x, bool) prog" where
  "exists p w = (Inr (path_exists (files w) p), w)"

definition logger_info :: "string \<Rightarrow> ('x, unit) prog" where
  "logger_info msg w = (Inr (), w\<lparr>log := log w @ [LogInfo msg]\<rparr>)"

definition logger_error :: "string \<Rightarrow> ('x, unit) prog" where
  "logger_error msg w = (Inr (), w\<lparr>log := log w @ [LogError msg]\<rparr>)"

text \<open>A call to a collaborator is recorded, then the collaborator runs.\<close>

definition call_collab :: "call \<Rightarrow> 'x collab \<Rightarrow> ('x, unit) prog" where
  "call_collab c ext w =
     (case ext (files w, outside w) of
        (r, (f, x)) \<Rightarrow> (r, w\<lparr>files := f, outside := x, calls := calls w @ [c]\<rparr>))"

definition get_llmware_path :: "'x env \<Rightarrow> string" where
  "get_llmware_path env = cfg_llmware_path env"

definition get_config :: "'x env \<Rightarrow> string \<Rightarrow> string" where
  "get_config env key = cfg_config env key"

definition setup_llmware_workspace :: "'x env \<Rightarrow> ('x, unit) prog" where
  "setup_llmware_workspace env = call_collab SetupWorkspace (ext_setup_llmware_workspace env)"

definition pull_file_from_public_s3 ::
  "'x env \<Rightarrow> string \<Rightarrow> string \<Rightarrow> string \<Rightarrow> ('x, unit) prog" where
  "pull_file_from_public_s3 env object_key local_file bucket_name =
     call_collab (PullFile object_key local_file bucket_name)
       (ext_pull_file_from_public_s3 env object_key local_file bucket_name)"

definition unpack_archive :: "'x env \<Rightarrow> string \<Rightarrow> string \<Rightarrow> string \<Rightarrow> ('x, unit) prog" where
  "unpack_archive env filename extract_dir fmt =
     call_collab (UnpackArchive filename extract_dir fmt)
       (ext_unpack_archive env filename extract_dir fmt)"

subsection \<open>\<^verbatim>\<open>Setup._download_and_unpack\<close>\<close>

definition quoted :: "string \<Rightarrow> string" where
  "quoted s = [CHR 0x27] @ s @ [CHR 0x27]"

definition download_and_unpack ::
  "string \<Rightarrow> path \<Rightarrow> 'x env \<Rightarrow> string \<Rightarrow> ('x, unit) prog" where
  "download_and_unpack folder_name sample_files_path bucket_manager bucket_name =
     (let remote_zip = folder_name @ ''.zip'';
          local_zip = joinpath sample_files_path remote_zip
      in try_except_Exception
           (then_do (logger_info (''Downloading '' @ quoted remote_zip @ '' from bucket ''
                                  @ quoted bucket_name @ ''...'')) (\<lambda>_.
            then_do (pull_file_from_public_s3 bucket_manager remote_zip (str local_zip)
                       bucket_name) (\<lambda>_.
            then_do (logger_info (''Extracting '' @ quoted (str local_zip) @ '' to ''
                                  @ quoted (str sample_files_path) @ ''...'')) (\<lambda>_.
            then_do (unpack_archive bucket_manager (str local_zip) (str sample_files_path)
                       ''zip'') (\<lambda>_.
            then_do (logger_info (''Removing temporary file '' @ quoted (str local_zip)
                                  @ ''...'')) (\<lambda>_.
            then_do (on_files (unlink local_zip)) (\<lambda>_.
            logger_info (''Successfully downloaded and extracted '' @ quoted folder_name
                         @ ''.''))))))))
           (\<lambda>e.
            then_do (logger_error (''Failed to download and extract '' @ quoted folder_name
                                   @ '': '' @ exn_msg e)) (\<lambda>_.
            raise (RuntimeError (''Failed to download and extract '' @ quoted folder_name
                                 @ '': '' @ exn_msg e) (Some e)))))"

subsection \<open>The three loaders\<close>

text \<open>
  An argument left out at the call is \<open>None\<close>; the defaults are those of the signatures:
  \<^verbatim>\<open>over_write=False\<close>, \<^verbatim>\<open>small_only=True\<close>, \<^verbatim>\<open>sample_folder="microsoft_ir"\<close>.
\<close>

definition load_sample_files :: "'x env \<Rightarrow> bool option \<Rightarrow> ('x, path) prog" where
  "load_sample_files env over_write_arg =
     (let over_write = (case over_write_arg of None \<Rightarrow> False | Some b \<Rightarrow> b);
          workspace_path = Path (get_llmware_path env);
          sample_files_path = joinpath workspace_path ''sample_files'';
          bucket_name = get_config env ''llmware_sample_files_bucket'';
          bucket_manager = env
      in then_do (exists workspace_path) (\<lambda>workspace_exists.
         then_do (if \<not> workspace_exists then
                    then_do (logger_info (''Workspace path '' @ quoted (str workspace_path)
                               @ '' does not exist. Setting up workspace...'')) (\<lambda>_.
                    setup_llmware_workspace env)
                  else return ()) (\<lambda>_.
         then_do (exists sample_files_path) (\<lambda>sample_files_exist.
         if sample_files_exist \<and> \<not> over_write then
           then_do (logger_info (''Sample files path already exists and overwrite is disabled: ''
                      @ quoted (str sample_files_path) @ ''.'')) (\<lambda>_.
           return sample_files_path)
         else
           then_do (on_files (mkdir sample_files_path)) (\<lambda>_.
           then_do (logger_info ''Downloading general sample files from AWS S3 bucket...'') (\<lambda>_.
           then_do (download_and_unpack ''sample_files'' sample_files_path bucket_manager
                      bucket_name) (\<lambda>_.
           return sample_files_path)))))))"

definition load_voice_sample_files ::
  "'x env \<Rightarrow> bool option \<Rightarrow> bool option \<Rightarrow> ('x, path) prog" where
  "load_voice_sample_files env over_write_arg small_only_arg =
     (let over_write = (case over_write_arg of None \<Rightarrow> False | Some b \<Rightarrow> b);
          small_only = (case small_only_arg of None \<Rightarrow> True | Some b \<Rightarrow> b);
          workspace_path = Path (get_llmware_path env);
          folder_suffix = (if small_only then ''voice_sample_files_small''
                           else ''voice_sample_files'');
          sample_files_path = joinpath workspace_path folder_suffix;
          bucket_name = get_config env ''llmware_sample_files_bucket'';
          bucket_manager = env
      in then_do (exists workspace_path) (\<lambda>workspace_exists.
         then_do (if \<not> workspace_exists then
                    then_do (logger_info (''Workspace path '' @ quoted (str workspace_path)
                               @ '' does not exist. Setting up workspace...'')) (\<lambda>_.
                    setup_llmware_workspace env)
                  else return ()) (\<lambda>_.
         then_do (exists sample_files_path) (\<lambda>sample_files_exist.
         if sample_files_exist \<and> \<not> over_write then
           then_do (logger_info
                      (''Voice sample files path already exists and overwrite is disabled: ''
                       @ quoted (str sample_files_path) @ ''.'')) (\<lambda>_.
           return sample_files_path)
         else
           then_do (on_files (mkdir sample_files_path)) (\<lambda>_.
           (let folder_name = (if small_only then ''voice_small'' else ''voice_all'')
            in then_do (logger_info (''Downloading ''
                          @ (if small_only then ''small'' else ''all'')
                          @ '' voice sample files from AWS S3 bucket...'')) (\<lambda>_.
               then_do (download_and_unpack folder_name sample_files_path bucket_manager
                          bucket_name) (\<lambda>_.
               return sample_files_path))))))))"

definition load_selected_sample_files ::
  "'x env \<Rightarrow> string option \<Rightarrow> bool option \<Rightarrow> ('x, path) prog" where
  "load_selected_sample_files env sample_folder_arg over_write_arg =
     (let sample_folder = (case sample_folder_arg of None \<Rightarrow> ''microsoft_ir'' | Some s \<Rightarrow> s);
          over_write = (case over_write_arg of None \<Rightarrow> False | Some b \<Rightarrow> b);
          workspace_path = Path (get_llmware_path env);
          sample_files_path = joinpath workspace_path sample_folder;
          bucket_name = get_config env ''llmware_sample_files_bucket'';
          bucket_manager = env
      in then_do (exists workspace_path) (\<lambda>workspace_exists.
         then_do (if \<not> workspace_exists then
                    then_do (logger_info (''Workspace path '' @ quoted (str workspace_path)
                               @ '' does not exist. Setting up workspace...'')) (\<lambda>_.
                    setup_llmware_workspace env)
                  else return ()) (\<lambda>_.
         then_do (exists sample_files_path) (\<lambda>sample_files_exist.
         if sample_files_exist \<and> \<not> over_write then
           then_do (logger_info
                      (''Selected sample files path already exists and overwrite is disabled: ''
                       @ quoted (str sample_files_path) @ ''.'')) (\<lambda>_.
           return sample_files_path)
         else
           then_do (on_files (mkdir sample_files_path)) (\<lambda>_.
           then_do (logger_info (''Downloading selected sample files '' @ quoted sample_folder
                      @ '' from AWS S3 bucket...'')) (\<lambda>_.
           then_do (download_and_unpack sample_folder sample_files_path bucket_manager
                      bucket_name) (\<lambda>_.
           return sample_files_path)))))))"

subsection \<open>The loaders seen as one operation\<close>

text \<open>
  A call of one of the three public methods, with the arguments as given at the call site.
\<close>

datatype loader_call =
  LoadSampleFiles "bool option"
| LoadVoiceSampleFiles "bool option" "bool option"
| LoadSelectedSampleFiles "string option" "bool option"

fun run_loader :: "'x env \<Rightarrow> loader_call \<Rightarrow> ('x, path) prog" where
  "run_loader env (LoadSampleFiles ow) = load_sample_files env ow"
| "run_loader env (LoadVoiceSampleFiles ow so) = load_voice_sample_files env ow so"
| "run_loader env (LoadSelectedSampleFiles sf ow) = load_selected_sample_files env sf ow"

text \<open>
  What each call works with, read off the three method bodies: the \<^verbatim>\<open>over_write\<close> flag in
  force, the name of the directory under the workspace root, and the folder name handed to
  \<^verbatim>\<open>_download_and_unpack\<close>. These functions only name the parts of a call in the
  statements below; that the methods above do use them this way is proved, as lemma
  \<open>run_loader_shape\<close>.
\<close>

fun over_write_of :: "loader_call \<Rightarrow> bool" where
  "over_write_of (LoadSampleFiles ow) = (case ow of None \<Rightarrow> False | Some b \<Rightarrow> b)"
| "over_write_of (LoadVoiceSampleFiles ow so) = (case ow of None \<Rightarrow> False | Some b \<Rightarrow> b)"
| "over_write_of (LoadSelectedSampleFiles sf ow) = (case ow of None \<Rightarrow> False | Some b \<Rightarrow> b)"

fun subdir_of :: "loader_call \<Rightarrow> string" where
  "subdir_of (LoadSampleFiles ow) = ''sample_files''"
| "subdir_of (LoadVoiceSampleFiles ow so) =
     (if (case so of None \<Rightarrow> True | Some b \<Rightarrow> b) then ''voice_sample_files_small''
      else ''voice_sample_files'')"
| "subdir_of (LoadSelectedSampleFiles sf ow) =
     (case sf of None \<Rightarrow> ''microsoft_ir'' | Some s \<Rightarrow> s)"

fun folder_of :: "loader_call \<Rightarrow> string" where
  "folder_of (LoadSampleFiles ow) = ''sample_files''"
| "folder_of (LoadVoiceSampleFiles ow so) =
     (if (case so of None \<Rightarrow> True | Some b \<Rightarrow> b) then ''voice_small'' else ''voice_all'')"
| "folder_of (LoadSelectedSampleFiles sf ow) =
     (case sf of None \<Rightarrow> ''microsoft_ir'' | Some s \<Rightarrow> s)"

definition workspace_of :: "'x env \<Rightarrow> path" where
  "workspace_of env = Path (cfg_llmware_path env)"

definition target_of :: "'x env \<Rightarrow> loader_call \<Rightarrow> path" where
  "target_of env c = joinpath (workspace_of env) (subdir_of c)"

definition bucket_of :: "'x env \<Rightarrow> string" where
  "bucket_of env = cfg_config env ''llmware_sample_files_bucket''"

text \<open>The temporary archive file of a call, and the two collaborator calls of a download.\<close>

definition local_zip_of :: "'x env \<Rightarrow> loader_call \<Rightarrow> path" where
  "local_zip_of env c = joinpath (target_of env c) (folder_of c @ ''.zip'')"

definition pull_call :: "'x env \<Rightarrow> loader_call \<Rightarrow> call" where
  "pull_call env c = PullFile (folder_of c @ ''.zip'') (str (local_zip_of env c)) (bucket_of env)"

definition unpack_call :: "'x env \<Rightarrow> loader_call \<Rightarrow> call" where
  "unpack_call env c = UnpackArchive (str (local_zip_of env c)) (str (target_of env c)) ''zip''"

text \<open>
  The block that opens each loader:
  \<^verbatim>\<open>if not workspace_path.exists(): logger.info(...); config.setup_llmware_workspace()\<close>.
\<close>

definition workspace_step :: "'x env \<Rightarrow> ('x, unit) prog" where
  "workspace_step env =
     then_do (exists (workspace_of env)) (\<lambda>workspace_exists.
       if \<not> workspace_exists then
         then_do (logger_info (''Workspace path '' @ quoted (str (workspace_of env))
                    @ '' does not exist. Setting up workspace...'')) (\<lambda>_.
         setup_llmware_workspace env)
       else return ())"

text \<open>
  The world in which a loader starts its download: the directory has been made, and the
  loader has logged that it downloads.
\<close>

definition before_download :: "'x world \<Rightarrow> filesys \<Rightarrow> log_record list \<Rightarrow> 'x world" where
  "before_download w f l = w\<lparr>files := f, log := l\<rparr>"

text \<open>Whether a call is a fetch from the bucket or an extraction.\<close>

fun is_pull :: "call \<Rightarrow> bool" where
  "is_pull (PullFile k l b) = True"
| "is_pull c = False"

fun is_unpack :: "call \<Rightarrow> bool" where
  "is_unpack (UnpackArchive a d f) = True"
| "is_unpack c = False"

text \<open>
  What each loader logs before it returns the directory it found, and before it downloads.
\<close>

fun present_note :: "'x env \<Rightarrow> loader_call \<Rightarrow> string" where
  "present_note env (LoadSampleFiles ow) =
     ''Sample files path already exists and overwrite is disabled: ''
     @ quoted (str (target_of env (LoadSampleFiles ow))) @ ''.''"
| "present_note env (LoadVoiceSampleFiles ow so) =
     ''Voice sample files path already exists and overwrite is disabled: ''
     @ quoted (str (target_of env (LoadVoiceSampleFiles ow so))) @ ''.''"
| "present_note env (LoadSelectedSampleFiles sf ow) =
     ''Selected sample files path already exists and overwrite is disabled: ''
     @ quoted (str (target_of env (LoadSelectedSampleFiles sf ow))) @ ''.''"

fun download_note :: "loader_call \<Rightarrow> string" where
  "download_note (LoadSampleFiles ow) = ''Downloading general sample files from AWS S3 bucket...''"
| "download_note (LoadVoiceSampleFiles ow so) =
     ''Downloading '' @ (if (case so of None \<Rightarrow> True | Some b \<Rightarrow> b) then ''small'' else ''all'')
     @ '' voice sample files from AWS S3 bucket...''"
| "download_note (LoadSelectedSampleFiles sf ow) =
     ''Downloading selected sample files ''
     @ quoted (case sf of None \<Rightarrow> ''microsoft_ir'' | Some s \<Rightarrow> s) @ '' from AWS S3 bucket...''"

text \<open>
  What every loader does once the workspace block is behind it. That the three methods
  are this, each with its own names, is lemma \<open>run_loader_shape\<close>.
\<close>

definition after_workspace :: "'x env \<Rightarrow> loader_call \<Rightarrow> ('x, path) prog" where
  "after_workspace env c =
     then_do (exists (target_of env c)) (\<lambda>present.
       if present \<and> \<not> over_write_of c then
         then_do (logger_info (present_note env c)) (\<lambda>_. return (target_of env c))
       else
         then_do (on_files (mkdir (target_of env c))) (\<lambda>_.
         then_do (logger_info (download_note c)) (\<lambda>_.
         then_do (download_and_unpack (folder_of c) (target_of env c) env (bucket_of env)) (\<lambda>_.
         return (target_of env c)))))"

text \<open>The exception the handler of \<^verbatim>\<open>_download_and_unpack\<close> raises from \<open>e\<close>.\<close>

definition wrapped :: "string \<Rightarrow> pyexn \<Rightarrow> pyexn" where
  "wrapped folder e =
     RuntimeError (''Failed to download and extract '' @ quoted folder @ '': '' @ exn_msg e) (Some e)"

text \<open>The calls made to the storage client, and those made to the extractor.\<close>

definition network_calls :: "'x world \<Rightarrow> call list" where
  "network_calls w = filter is_pull (calls w)"

definition extractor_calls :: "'x world \<Rightarrow> call list" where
  "extractor_calls w = filter is_unpack (calls w)"

subsection \<open>What a theorem may assume of the collaborators\<close>

text \<open>
  A collaborator keeps the entries of the filesystem when it removes none and leaves every
  directory a directory; it may add entries and rewrite files.
\<close>

definition keeps_entries :: "'x collab \<Rightarrow> bool" where
  "keeps_entries ext \<longleftrightarrow>
     (\<forall>f x r f' x' q. ext (f, x) = (r, (f', x')) \<longrightarrow>
        (path_exists f q \<longrightarrow> path_exists f' q) \<and> (path_is_dir f q \<longrightarrow> path_is_dir f' q))"

definition collaborators_keep_entries :: "'x env \<Rightarrow> bool" where
  "collaborators_keep_entries env \<longleftrightarrow>
     keeps_entries (ext_setup_llmware_workspace env) \<and>
     (\<forall>k l b. keeps_entries (ext_pull_file_from_public_s3 env k l b)) \<and>
     (\<forall>a d t. keeps_entries (ext_unpack_archive env a d t))"

text \<open>The same of the two collaborators of a download alone.\<close>

definition download_keeps_entries :: "'x env \<Rightarrow> bool" where
  "download_keeps_entries env \<longleftrightarrow>
     (\<forall>k l b. keeps_entries (ext_pull_file_from_public_s3 env k l b)) \<and>
     (\<forall>a d t. keeps_entries (ext_unpack_archive env a d t))"

text \<open>The workspace initialisation, when it returns, has made the workspace root.\<close>

definition setup_makes_workspace :: "'x env \<Rightarrow> bool" where
  "setup_makes_workspace env \<longleftrightarrow>
     (\<forall>f x f' x'. ext_setup_llmware_workspace env (f, x) = (Inr (), (f', x')) \<longrightarrow>
        path_is_dir f' (workspace_of env))"

subsection \<open>Reference collaborators\<close>

text \<open>
  Modelled from the spec: \<^verbatim>\<open>LLMWareConfig.setup_llmware_workspace\<close> is not in this module;
  the Workspace Locator "resolves a base local directory, creating it if missing".
\<close>

definition ref_setup :: "string \<Rightarrow> 'x collab" where
  "ref_setup ws s =
     (case mkdir (Path ws) (fst s) of
        Inl e \<Rightarrow> (Inl e, s)
      | Inr f' \<Rightarrow> (Inr (), (f', snd s)))"

text \<open>
  Modelled from the spec: \<^verbatim>\<open>CloudBucketManager.pull_file_from_public_s3\<close> is not in this
  module; the Object Store Client "fetches a single named object from a public bucket into
  a local path". The outside world is the bucket store, from bucket and key to the object.
  A key that is not there is an error of the client.
\<close>

type_synonym store = "((string \<times> string) \<times> content) list"

definition ref_pull :: "string \<Rightarrow> string \<Rightarrow> string \<Rightarrow> store collab" where
  "ref_pull object_key local_file bucket_name s =
     (case map_of (snd s) (bucket_name, object_key) of
        None \<Rightarrow> (Inl (PyExn ''ClientError'' True (''Not Found: '' @ object_key) None), s)
      | Some data \<Rightarrow>
          if path_is_dir (fst s) (Path local_file) then (Inl (IsADirectoryError local_file), s)
          else (Inr (), ((fst s)(Path local_file \<mapsto> File data), snd s)))"

text \<open>
  Modelled from the spec: the Archive Extractor (\<^verbatim>\<open>shutil.unpack_archive\<close>) "unpacks a zip
  archive into a directory", the entries landing under the destination. A file that is not
  an archive is an error; a member whose place is taken by a directory is an error that
  leaves the members already written.
\<close>

fun extract_members :: "path \<Rightarrow> (string \<times> string) list \<Rightarrow> filesys \<Rightarrow> (pyexn + unit) \<times> filesys" where
  "extract_members dst [] f = (Inr (), f)"
| "extract_members dst (m # ms) f =
     (let t = joinpath dst (fst m)
      in if path_is_dir f t then (Inl (IsADirectoryError (str t)), f)
         else extract_members dst ms (f(t \<mapsto> File (Blob (snd m)))))"

definition ref_unpack :: "string \<Rightarrow> string \<Rightarrow> string \<Rightarrow> 'x collab" where
  "ref_unpack filename extract_dir fmt s =
     (case node_at (fst s) (Path filename) of
        Some (File (ZipArchive ms)) \<Rightarrow>
          (case extract_members (Path extract_dir) ms (fst s) of
             (r, f') \<Rightarrow> (r, (f', snd s)))
      | _ \<Rightarrow> (Inl (PyExn ''ReadError'' True (filename @ '' is not a zip file'') None), s))"

definition ref_env :: "string \<Rightarrow> string \<Rightarrow> store env" where
  "ref_env ws bucket =
     \<lparr> cfg_llmware_path = ws,
       cfg_config = (\<lambda>key. if key = ''llmware_sample_files_bucket'' then bucket else []),
       ext_setup_llmware_workspace = ref_setup ws,
       ext_pull_file_from_public_s3 = ref_pull,
       ext_unpack_archive = ref_unpack \<rparr>"

definition world0 :: "filesys \<Rightarrow> 'x \<Rightarrow> 'x world" where
  "world0 f x = \<lparr> files = f, outside = x, calls = [], log = [] \<rparr>"

subsection \<open>An example environment\<close>

text \<open>
  The reference collaborators, a workspace at \<^verbatim>\<open>/w\<close>, a bucket \<^verbatim>\<open>b\<close> with three archives and
  one object that is not an archive.
\<close>

definition example_store :: store where
  "example_store =
     [((''b'', ''sample_files.zip''), ZipArchive [(''readme.txt'', ''hello'')]),
      ((''b'', ''voice_small.zip''), ZipArchive [(''a.wav'', ''RIFF'')]),
      ((''b'', ''microsoft_ir.zip''), ZipArchive [(''ir.pdf'', ''PDF'')]),
      ((''b'', ''bad.zip''), Blob ''junk'')]"

definition example_env :: "store env" where
  "example_env = ref_env ''/w'' ''b''"

definition workspace_only :: "store world" where
  "workspace_only = world0 [PurePath ''/'' [''w''] \<mapsto> Dir] example_store"

definition bad_folder_made :: "store world" where
  "bad_folder_made =
     world0 [PurePath ''/'' [''w''] \<mapsto> Dir, PurePath ''/'' [''w'', ''bad''] \<mapsto> Dir] example_store"

definition sample_present :: "store world" where
  "sample_present =
     world0 [PurePath ''/'' [''w''] \<mapsto> Dir, PurePath ''/'' [''w'', ''sample_files''] \<mapsto> Dir]
       example_store"

definition stale_archive :: "store world" where
  "stale_archive =
     world0 [PurePath ''/'' [''w''] \<mapsto> Dir,
             PurePath ''/'' [''w'', ''sample_files''] \<mapsto> Dir,
             PurePath ''/'' [''w'', ''sample_files'', ''old.txt''] \<mapsto> File (Blob ''old''),
             PurePath ''/'' [''w'', ''sample_files'', ''sample_files.zip''] \<mapsto> File (Blob ''stale'')]
       example_store"

definition file_in_the_way :: "store world" where
  "file_in_the_way =
     world0 [PurePath ''/'' [''w''] \<mapsto> Dir,
             PurePath ''/'' [''w'', ''sample_files''] \<mapsto> File (Blob ''notes'')]
       example_store"

definition voice_present :: "store world" where
  "voice_present =
     world0 [PurePath ''/'' [''w''] \<mapsto> Dir,
             PurePath ''/'' [''w'', ''voice_sample_files_small''] \<mapsto> Dir]
       example_store"

definition voice_blocked :: "store world" where
  "voice_blocked =
     world0 [PurePath ''/'' [''w''] \<mapsto> Dir,
             PurePath ''/'' [''w'', ''voice_sample_files_small''] \<mapsto> File (Blob ''notes'')]
       example_store"

section \<open>Properties\<close>

subsection \<open>Directory creation and file removal\<close>

lemma node_at_upd_other: "q \<noteq> p \<Longrightarrow> node_at (f(p := v)) q = node_at f q"
  by (simp add: node_at_def)

lemma os_mkdir_Inr:
  "os_mkdir p f = Inr f' \<Longrightarrow> f' = f(p \<mapsto> Dir) \<and> \<not> path_exists f p"
  by (auto simp: os_mkdir_def split: if_splits option.splits node.splits)

lemma mkdir_single_Inr:
  "mkdir_single p f = Inr f' \<Longrightarrow>
     (f' = f(p \<mapsto> Dir) \<and> \<not> path_exists f p) \<or> (f' = f \<and> path_is_dir f p)"
  by (auto simp: mkdir_single_def split: sum.splits if_splits dest: os_mkdir_Inr)

lemma node_at_add_dir:
  "\<not> path_exists f p \<Longrightarrow> node_at f q \<noteq> None \<Longrightarrow> node_at (f(p \<mapsto> Dir)) q = node_at f q"
  by (auto simp: node_at_def path_exists_def)

lemma node_at_add_dir_self: "node_at (f(p \<mapsto> Dir)) p = Some Dir"
  by (simp add: node_at_def)

lemma mkdir_single_keeps:
  assumes "mkdir_single p f = Inr f'"
  shows "path_is_dir f' p" and "node_at f q \<noteq> None \<Longrightarrow> node_at f' q = node_at f q"
  using mkdir_single_Inr [OF assms]
  by (auto simp: path_is_dir_def node_at_add_dir node_at_add_dir_self)

lemma mkdir_parents_keeps:
  "mkdir_parents r rps f = Inr f' \<Longrightarrow>
     path_is_dir f' (PurePath r (rev rps)) \<and>
     (\<forall>q. node_at f q \<noteq> None \<longrightarrow> node_at f' q = node_at f q)"
proof (induction rps arbitrary: f f')
  case Nil
  then show ?case using mkdir_single_keeps [of "PurePath r []" f f'] by simp
next
  case (Cons x rps)
  let ?p = "PurePath r (rev (x # rps))"
  show ?case
  proof (cases "os_mkdir ?p f")
    case (Inr g)
    with Cons.prems have "f' = g" by simp
    with Inr have "mkdir_single ?p f = Inr f'" by (simp add: mkdir_single_def)
    then show ?thesis using mkdir_single_keeps [of ?p f f'] by simp
  next
    case (Inl e)
    show ?thesis
    proof (cases "exn_class e = ''FileNotFoundError''")
      case True
      with Inl Cons.prems obtain f1 where
        f1: "mkdir_parents r rps f = Inr f1" and s: "mkdir_single ?p f1 = Inr f'"
        by (auto simp: Let_def split: sum.splits)
      from Cons.IH [OF f1] have k1: "\<forall>q. node_at f q \<noteq> None \<longrightarrow> node_at f1 q = node_at f q" by simp
      from mkdir_single_keeps [OF s] have d: "path_is_dir f' ?p"
        and k2: "\<And>q. node_at f1 q \<noteq> None \<Longrightarrow> node_at f' q = node_at f1 q" by auto
      from k1 k2 have "\<forall>q. node_at f q \<noteq> None \<longrightarrow> node_at f' q = node_at f q"
        by metis
      with d show ?thesis by simp
    next
      case False
      with Inl Cons.prems have "f' = f" "path_is_dir f ?p"
        by (auto simp: Let_def split: if_splits)
      then show ?thesis by simp
    qed
  qed
qed

lemma path_collapse: "PurePath (root p) (parts p) = p"
  by (cases p) simp

lemma mkdir_is_dir: "mkdir p f = Inr f' \<Longrightarrow> path_is_dir f' p"
  using mkdir_parents_keeps [of "root p" "rev (parts p)" f f']
  by (simp add: mkdir_def)

lemma mkdir_keeps_node: "mkdir p f = Inr f' \<Longrightarrow> node_at f q \<noteq> None \<Longrightarrow> node_at f' q = node_at f q"
  using mkdir_parents_keeps [of "root p" "rev (parts p)" f f']
  by (simp add: mkdir_def)



lemma unlink_Inr:
  "unlink p f = Inr f' \<Longrightarrow> f' = f(p := None) \<and> (\<exists>c. node_at f p = Some (File c)) \<and> \<not> path_exists f' p"
  by (auto simp: unlink_def node_at_def path_exists_def split: option.splits node.splits if_splits)

lemma unlink_Inl: "unlink p f = Inl e \<Longrightarrow> exn_is_Exception e"
  by (auto simp: unlink_def FileNotFoundError_def IsADirectoryError_def split: option.splits node.splits)

subsection \<open>The four ways \<^verbatim>\<open>_download_and_unpack\<close> ends\<close>

lemmas prog_defs =
  then_do_def return_def raise_def try_except_Exception_def on_files_def exists_def
  logger_info_def logger_error_def call_collab_def setup_llmware_workspace_def
  pull_file_from_public_s3_def unpack_archive_def

lemma dl_pull_raises:
  assumes "ext_pull_file_from_public_s3 env (folder @ ''.zip'')
             (str (joinpath p (folder @ ''.zip''))) b (files w, outside w) = (Inl e, (f1, x1))"
  shows "\<exists>w'. download_and_unpack folder p env b w = (Inl (if exn_is_Exception e then wrapped folder e else e), w') \<and>
           files w' = f1 \<and> outside w' = x1 \<and>
           calls w' = calls w @ [PullFile (folder @ ''.zip'') (str (joinpath p (folder @ ''.zip''))) b]"
  using assms by (simp add: download_and_unpack_def prog_defs wrapped_def Let_def)

lemma dl_unpack_raises:
  assumes "ext_pull_file_from_public_s3 env (folder @ ''.zip'')
             (str (joinpath p (folder @ ''.zip''))) b (files w, outside w) = (Inr (), (f1, x1))"
    and "ext_unpack_archive env (str (joinpath p (folder @ ''.zip''))) (str p) ''zip'' (f1, x1)
           = (Inl e, (f2, x2))"
  shows "\<exists>w'. download_and_unpack folder p env b w = (Inl (if exn_is_Exception e then wrapped folder e else e), w') \<and>
           files w' = f2 \<and> outside w' = x2 \<and>
           calls w' = calls w @ [PullFile (folder @ ''.zip'') (str (joinpath p (folder @ ''.zip''))) b,
                                  UnpackArchive (str (joinpath p (folder @ ''.zip''))) (str p) ''zip'']"
  using assms by (simp add: download_and_unpack_def prog_defs wrapped_def Let_def)

lemma dl_unlink_raises:
  assumes "ext_pull_file_from_public_s3 env (folder @ ''.zip'')
             (str (joinpath p (folder @ ''.zip''))) b (files w, outside w) = (Inr (), (f1, x1))"
    and "ext_unpack_archive env (str (joinpath p (folder @ ''.zip''))) (str p) ''zip'' (f1, x1)
           = (Inr (), (f2, x2))"
    and "unlink (joinpath p (folder @ ''.zip'')) f2 = Inl e"
  shows "\<exists>w'. download_and_unpack folder p env b w = (Inl (wrapped folder e), w') \<and>
           files w' = f2 \<and> outside w' = x2 \<and>
           calls w' = calls w @ [PullFile (folder @ ''.zip'') (str (joinpath p (folder @ ''.zip''))) b,
                                  UnpackArchive (str (joinpath p (folder @ ''.zip''))) (str p) ''zip'']"
  using assms unlink_Inl [OF assms(3)]
  by (simp add: download_and_unpack_def prog_defs wrapped_def Let_def)

lemma dl_ok:
  assumes "ext_pull_file_from_public_s3 env (folder @ ''.zip'')
             (str (joinpath p (folder @ ''.zip''))) b (files w, outside w) = (Inr (), (f1, x1))"
    and "ext_unpack_archive env (str (joinpath p (folder @ ''.zip''))) (str p) ''zip'' (f1, x1)
           = (Inr (), (f2, x2))"
    and "unlink (joinpath p (folder @ ''.zip'')) f2 = Inr f3"
  shows "\<exists>w'. download_and_unpack folder p env b w = (Inr (), w') \<and>
           files w' = f3 \<and> outside w' = x2 \<and>
           calls w' = calls w @ [PullFile (folder @ ''.zip'') (str (joinpath p (folder @ ''.zip''))) b,
                                  UnpackArchive (str (joinpath p (folder @ ''.zip''))) (str p) ''zip'']"
  using assms by (simp add: download_and_unpack_def prog_defs wrapped_def Let_def)

lemma dl_outcomes:
  fixes env :: "'x env" and w :: "'x world"
  obtains
    (pull_raises) e f1 x1 where
      "ext_pull_file_from_public_s3 env (folder @ ''.zip'')
         (str (joinpath p (folder @ ''.zip''))) b (files w, outside w) = (Inl e, (f1, x1))"
  | (unpack_raises) f1 x1 e f2 x2 where
      "ext_pull_file_from_public_s3 env (folder @ ''.zip'')
         (str (joinpath p (folder @ ''.zip''))) b (files w, outside w) = (Inr (), (f1, x1))"
      "ext_unpack_archive env (str (joinpath p (folder @ ''.zip''))) (str p) ''zip'' (f1, x1)
         = (Inl e, (f2, x2))"
  | (unlink_raises) f1 x1 f2 x2 e where
      "ext_pull_file_from_public_s3 env (folder @ ''.zip'')
         (str (joinpath p (folder @ ''.zip''))) b (files w, outside w) = (Inr (), (f1, x1))"
      "ext_unpack_archive env (str (joinpath p (folder @ ''.zip''))) (str p) ''zip'' (f1, x1)
         = (Inr (), (f2, x2))"
      "unlink (joinpath p (folder @ ''.zip'')) f2 = Inl e"
  | (ok) f1 x1 f2 x2 f3 where
      "ext_pull_file_from_public_s3 env (folder @ ''.zip'')
         (str (joinpath p (folder @ ''.zip''))) b (files w, outside w) = (Inr (), (f1, x1))"
      "ext_unpack_archive env (str (joinpath p (folder @ ''.zip''))) (str p) ''zip'' (f1, x1)
         = (Inr (), (f2, x2))"
      "unlink (joinpath p (folder @ ''.zip'')) f2 = Inr f3"
proof -
  obtain r1 f1 x1 where p1: "ext_pull_file_from_public_s3 env (folder @ ''.zip'')
         (str (joinpath p (folder @ ''.zip''))) b (files w, outside w) = (r1, (f1, x1))"
    by (metis prod.exhaust)
  show thesis
  proof (cases r1)
    case (Inl e)
    with p1 show ?thesis using pull_raises by simp
  next
    case (Inr u)
    obtain r2 f2 x2 where p2: "ext_unpack_archive env (str (joinpath p (folder @ ''.zip'')))
        (str p) ''zip'' (f1, x1) = (r2, (f2, x2))"
      by (metis prod.exhaust)
    show ?thesis
    proof (cases r2)
      case (Inl e)
      with p1 p2 Inr show ?thesis using unpack_raises by simp
    next
      case r2: (Inr u2)
      show ?thesis
      proof (cases "unlink (joinpath p (folder @ ''.zip'')) f2")
        case (Inl e)
        with p1 p2 Inr r2 show ?thesis using unlink_raises by simp
      next
        case f3: (Inr f3)
        with p1 p2 Inr r2 show ?thesis using ok by simp
      qed
    qed
  qed
qed

lemma dl_first_call:
  "\<exists>r w' rest. download_and_unpack folder p env b w = (r, w') \<and>
     calls w' = calls w @ PullFile (folder @ ''.zip'') (str (joinpath p (folder @ ''.zip''))) b # rest \<and>
     (rest = [] \<or> rest = [UnpackArchive (str (joinpath p (folder @ ''.zip''))) (str p) ''zip'']) \<and>
     (rest = [] \<longrightarrow> isl r)"
proof (cases rule: dl_outcomes [of env folder p b w])
  case (pull_raises e f1 x1)
  from dl_pull_raises [OF this] show ?thesis by auto
next
  case (unpack_raises f1 x1 e f2 x2)
  from dl_unpack_raises [OF this] show ?thesis by auto
next
  case (unlink_raises f1 x1 f2 x2 e)
  from dl_unlink_raises [OF this] show ?thesis by auto
next
  case (ok f1 x1 f2 x2 f3)
  from dl_ok [OF this] show ?thesis by auto
qed

lemma dl_Inr_removed:
  assumes "download_and_unpack folder p env b w = (Inr u, w')"
  shows "\<not> path_exists (files w') (joinpath p (folder @ ''.zip''))"
proof (cases rule: dl_outcomes [of env folder p b w])
  case (pull_raises e f1 x1)
  from dl_pull_raises [OF this] assms show ?thesis by auto
next
  case (unpack_raises f1 x1 e f2 x2)
  from dl_unpack_raises [OF this] assms show ?thesis by auto
next
  case (unlink_raises f1 x1 f2 x2 e)
  from dl_unlink_raises [OF this] assms show ?thesis by auto
next
  case (ok f1 x1 f2 x2 f3)
  from dl_ok [OF this] assms unlink_Inr [OF ok(3)] show ?thesis by auto
qed

subsection \<open>The branches of a loader\<close>

lemmas view_defs = workspace_of_def target_of_def bucket_of_def get_llmware_path_def get_config_def

lemma ws_step_present:
  "path_exists (files w) (workspace_of env) \<Longrightarrow> workspace_step env w = (Inr (), w)"
  by (simp add: workspace_step_def prog_defs)

lemma ws_step_absent:
  assumes "\<not> path_exists (files w) (workspace_of env)"
    and "ext_setup_llmware_workspace env (files w, outside w) = (r, (f', x'))"
  shows "\<exists>w0. workspace_step env w = (r, w0) \<and> files w0 = f' \<and> outside w0 = x' \<and>
           calls w0 = calls w @ [SetupWorkspace]"
  using assms by (cases r) (simp_all add: workspace_step_def prog_defs)


lemma then_do_assoc: "then_do (then_do m k) h = then_do m (\<lambda>x. then_do (k x) h)"
  by (rule ext) (simp add: then_do_def split: prod.splits sum.splits)

lemma then_do_Inr: "m w = (Inr x, w') \<Longrightarrow> then_do m k w = k x w'"
  by (simp add: then_do_def)

lemma then_do_Inl: "m w = (Inl e, w') \<Longrightarrow> then_do m k w = (Inl e, w')"
  by (simp add: then_do_def)

lemma run_loader_shape:
  "run_loader env c = then_do (workspace_step env) (\<lambda>_. after_workspace env c)"
  by (cases c)
     (simp_all add: load_sample_files_def load_voice_sample_files_def
        load_selected_sample_files_def workspace_step_def after_workspace_def then_do_assoc
        view_defs Let_def cong: if_cong)

lemma run_loader_ws_raises:
  "workspace_step env w = (Inl e, w0) \<Longrightarrow> run_loader env c w = (Inl e, w0)"
  by (simp add: run_loader_shape then_do_Inl)

lemma run_loader_after:
  "workspace_step env w = (Inr (), w0) \<Longrightarrow> run_loader env c w = after_workspace env c w0"
  by (simp add: run_loader_shape then_do_def)

lemma run_loader_short:
  assumes "workspace_step env w = (Inr (), w0)"
    and "path_exists (files w0) (target_of env c)" and "\<not> over_write_of c"
  shows "\<exists>w'. run_loader env c w = (Inr (target_of env c), w') \<and>
           files w' = files w0 \<and> outside w' = outside w0 \<and> calls w' = calls w0"
  using assms(2,3)
  by (simp add: run_loader_after [OF assms(1)] after_workspace_def prog_defs)

lemma run_loader_mkdir_raises:
  assumes "workspace_step env w = (Inr (), w0)"
    and "over_write_of c \<or> \<not> path_exists (files w0) (target_of env c)"
    and "mkdir (target_of env c) (files w0) = Inl e"
  shows "run_loader env c w = (Inl e, w0)"
  using assms(2,3)
  by (auto simp add: run_loader_after [OF assms(1)] after_workspace_def prog_defs)

lemma run_loader_download:
  assumes "workspace_step env w = (Inr (), w0)"
    and "over_write_of c \<or> \<not> path_exists (files w0) (target_of env c)"
    and "mkdir (target_of env c) (files w0) = Inr f1"
  shows "run_loader env c w =
           (case download_and_unpack (folder_of c) (target_of env c) env (bucket_of env)
                   (before_download w0 f1 (log w0 @ [LogInfo (download_note c)])) of
              (Inl e, w') \<Rightarrow> (Inl e, w')
            | (Inr u, w') \<Rightarrow> (Inr (target_of env c), w'))"
  using assms(2,3)
  by (auto simp add: run_loader_after [OF assms(1)] after_workspace_def prog_defs
        before_download_def split: prod.splits sum.splits)

subsection \<open>Evaluating concrete worlds\<close>

lemmas path_eval = Path_def parse_root_def parse_parts_def joinpath_def str_def Let_def

lemmas fs_eval = path_exists_def path_is_dir_def node_at_def mkdir_def os_mkdir_def
  mkdir_single_def unlink_def parent_def FileExistsError_def FileNotFoundError_def
  NotADirectoryError_def IsADirectoryError_def

lemmas example_eval = example_env_def example_store_def ref_env_def ref_setup_def ref_pull_def
  ref_unpack_def world0_def workspace_only_def

lemma loader_download_calls:
  assumes "workspace_step env w = (Inr (), w0)"
    and "over_write_of c \<or> \<not> path_exists (files w0) (target_of env c)"
    and "mkdir (target_of env c) (files w0) = Inr f1"
  shows "\<exists>r w' rest. run_loader env c w = (r, w') \<and>
           calls w' = calls w0 @ pull_call env c # rest \<and>
           (rest = [] \<or> rest = [unpack_call env c]) \<and>
           (rest = [] \<longrightarrow> isl r) \<and>
           (\<forall>p. r = Inr p \<longrightarrow> p = target_of env c)"
proof -
  let ?w1 = "before_download w0 f1 (log w0 @ [LogInfo (download_note c)])"
  obtain r w' rest where
    d: "download_and_unpack (folder_of c) (target_of env c) env (bucket_of env) ?w1 = (r, w')"
    and c: "calls w' = calls ?w1 @ PullFile (folder_of c @ ''.zip'')
              (str (joinpath (target_of env c) (folder_of c @ ''.zip''))) (bucket_of env) # rest"
    and r: "rest = [] \<or> rest = [UnpackArchive (str (joinpath (target_of env c)
              (folder_of c @ ''.zip''))) (str (target_of env c)) ''zip'']"
    and i: "rest = [] \<longrightarrow> isl r"
    using dl_first_call [of "folder_of c" "target_of env c" env "bucket_of env" ?w1] by blast
  have eq: "run_loader env c w =
      (case r of Inl e \<Rightarrow> (Inl e, w') | Inr u \<Rightarrow> (Inr (target_of env c), w'))"
    using run_loader_download [OF assms] d by (simp split: sum.splits)
  show ?thesis
  proof (cases r)
    case (Inl e)
    with eq c r i show ?thesis
      by (simp add: before_download_def pull_call_def unpack_call_def local_zip_of_def)
  next
    case (Inr u)
    with eq c r i show ?thesis
      by (simp add: before_download_def pull_call_def unpack_call_def local_zip_of_def)
  qed
qed

lemma ws_only_step: "workspace_step example_env workspace_only = (Inr (), workspace_only)"
  by (rule ws_step_present) (simp add: example_eval workspace_of_def path_eval fs_eval)



lemma loader_download_result:
  assumes "workspace_step env w = (Inr (), w0)"
    and "over_write_of c \<or> \<not> path_exists (files w0) (target_of env c)"
    and "mkdir (target_of env c) (files w0) = Inr f1"
    and "download_and_unpack (folder_of c) (target_of env c) env (bucket_of env)
           (before_download w0 f1 (log w0 @ [LogInfo (download_note c)])) = (r, w')"
  shows "run_loader env c w = (case r of Inl e \<Rightarrow> Inl e | Inr u \<Rightarrow> Inr (target_of env c), w')"
  using run_loader_download [OF assms(1,2,3)] assms(4) by (simp split: sum.splits)

lemma loader_download_ok:
  assumes "workspace_step env w = (Inr (), w0)"
    and "over_write_of c \<or> \<not> path_exists (files w0) (target_of env c)"
    and "mkdir (target_of env c) (files w0) = Inr f1"
    and "ext_pull_file_from_public_s3 env (folder_of c @ ''.zip'') (str (local_zip_of env c))
           (bucket_of env) (f1, outside w0) = (Inr (), (f2, x2))"
    and "ext_unpack_archive env (str (local_zip_of env c)) (str (target_of env c)) ''zip'' (f2, x2)
           = (Inr (), (f3, x3))"
    and "unlink (local_zip_of env c) f3 = Inr f4"
  shows "\<exists>w'. run_loader env c w = (Inr (target_of env c), w') \<and> files w' = f4 \<and>
           outside w' = x3 \<and> calls w' = calls w0 @ [pull_call env c, unpack_call env c]"
proof -
  let ?w1 = "before_download w0 f1 (log w0 @ [LogInfo (download_note c)])"
  have fo: "files ?w1 = f1" "outside ?w1 = outside w0" "calls ?w1 = calls w0"
    by (simp_all add: before_download_def)
  from dl_ok [of env "folder_of c" "target_of env c" "bucket_of env" ?w1 f2 x2 f3 x3 f4] assms(4,5,6)
  obtain w' where d: "download_and_unpack (folder_of c) (target_of env c) env (bucket_of env) ?w1
        = (Inr (), w')"
    and p: "files w' = f4" "outside w' = x3"
      "calls w' = calls w0 @ [pull_call env c, unpack_call env c]"
    unfolding fo local_zip_of_def pull_call_def unpack_call_def by auto
  from loader_download_result [OF assms(1,2,3) d] p show ?thesis by simp
qed


lemma loader_download_raises:
  assumes "workspace_step env w = (Inr (), w0)"
    and "over_write_of c \<or> \<not> path_exists (files w0) (target_of env c)"
    and "mkdir (target_of env c) (files w0) = Inr f1"
    and "ext_pull_file_from_public_s3 env (folder_of c @ ''.zip'') (str (local_zip_of env c))
           (bucket_of env) (f1, outside w0) = (Inl e, (f2, x2))
         \<or> (\<exists>g y. ext_pull_file_from_public_s3 env (folder_of c @ ''.zip'') (str (local_zip_of env c))
                     (bucket_of env) (f1, outside w0) = (Inr (), (g, y)) \<and>
                   ext_unpack_archive env (str (local_zip_of env c)) (str (target_of env c)) ''zip''
                     (g, y) = (Inl e, (f2, x2)))"
  shows "\<exists>w'. run_loader env c w = (Inl (if exn_is_Exception e then wrapped (folder_of c) e else e), w') \<and>
           files w' = f2 \<and> outside w' = x2 \<and>
           (calls w' = calls w0 @ [pull_call env c] \<or>
            calls w' = calls w0 @ [pull_call env c, unpack_call env c])"
proof -
  let ?w1 = "before_download w0 f1 (log w0 @ [LogInfo (download_note c)])"
  have fo: "files ?w1 = f1" "outside ?w1 = outside w0" "calls ?w1 = calls w0"
    by (simp_all add: before_download_def)
  from assms(4) show ?thesis
  proof
    assume a: "ext_pull_file_from_public_s3 env (folder_of c @ ''.zip'') (str (local_zip_of env c))
           (bucket_of env) (f1, outside w0) = (Inl e, (f2, x2))"
    from dl_pull_raises [of env "folder_of c" "target_of env c" "bucket_of env" ?w1 e f2 x2] a
    obtain w' where d: "download_and_unpack (folder_of c) (target_of env c) env (bucket_of env) ?w1
        = (Inl (if exn_is_Exception e then wrapped (folder_of c) e else e), w')"
      and p: "files w' = f2" "outside w' = x2" "calls w' = calls w0 @ [pull_call env c]"
      unfolding fo local_zip_of_def pull_call_def by auto
    from loader_download_result [OF assms(1,2,3) d] p show ?thesis by simp
  next
    assume "\<exists>g y. ext_pull_file_from_public_s3 env (folder_of c @ ''.zip'') (str (local_zip_of env c))
                     (bucket_of env) (f1, outside w0) = (Inr (), (g, y)) \<and>
                   ext_unpack_archive env (str (local_zip_of env c)) (str (target_of env c)) ''zip''
                     (g, y) = (Inl e, (f2, x2))"
    then obtain g y where a: "ext_pull_file_from_public_s3 env (folder_of c @ ''.zip'')
          (str (local_zip_of env c)) (bucket_of env) (f1, outside w0) = (Inr (), (g, y))"
      and b: "ext_unpack_archive env (str (local_zip_of env c)) (str (target_of env c)) ''zip''
                     (g, y) = (Inl e, (f2, x2))"
      by blast
    from dl_unpack_raises [of env "folder_of c" "target_of env c" "bucket_of env" ?w1 g y e f2 x2] a b
    obtain w' where d: "download_and_unpack (folder_of c) (target_of env c) env (bucket_of env) ?w1
        = (Inl (if exn_is_Exception e then wrapped (folder_of c) e else e), w')"
      and p: "files w' = f2" "outside w' = x2"
        "calls w' = calls w0 @ [pull_call env c, unpack_call env c]"
      unfolding fo local_zip_of_def pull_call_def unpack_call_def by auto
    from loader_download_result [OF assms(1,2,3) d] p show ?thesis by simp
  qed
qed

lemma base_exception_propagates:
  assumes "workspace_step env w = (Inr (), w0)"
    and "over_write_of c \<or> \<not> path_exists (files w0) (target_of env c)"
    and "mkdir (target_of env c) (files w0) = Inr f1"
    and "ext_pull_file_from_public_s3 env (folder_of c @ ''.zip'') (str (local_zip_of env c))
           (bucket_of env) (f1, outside w0) = (Inl e, (f2, x2))"
    and "\<not> exn_is_Exception e"
  shows "\<exists>w'. run_loader env c w = (Inl e, w')"
  using loader_download_raises [OF assms(1,2,3) disjI1 [OF assms(4)]] assms(5) by auto

subsection \<open>What the steps keep of the filesystem\<close>

lemma keeps_entriesD:
  assumes "keeps_entries ext" and "ext (f, x) = (r, (f', x'))"
  shows "path_exists f q \<Longrightarrow> path_exists f' q" and "path_is_dir f q \<Longrightarrow> path_is_dir f' q"
  using assms unfolding keeps_entries_def by blast+

lemma unlink_keeps:
  assumes "unlink p f = Inr f'"
  shows "path_is_dir f q \<Longrightarrow> path_is_dir f' q" and "q \<noteq> p \<Longrightarrow> path_exists f q \<Longrightarrow> path_exists f' q"
  using unlink_Inr [OF assms]
  by (auto simp: path_is_dir_def path_exists_def node_at_def)

lemma mkdir_keeps:
  assumes "mkdir p f = Inr f'"
  shows "path_exists f q \<Longrightarrow> path_exists f' q" and "path_is_dir f q \<Longrightarrow> path_is_dir f' q"
  using mkdir_keeps_node [OF assms, of q]
  by (auto simp: path_is_dir_def path_exists_def)

lemma ws_step_calls:
  "workspace_step env w = (r, w0) \<Longrightarrow> calls w0 = calls w \<or> calls w0 = calls w @ [SetupWorkspace]"
proof (cases "path_exists (files w) (workspace_of env)")
  case True
  assume "workspace_step env w = (r, w0)"
  with ws_step_present [OF True] show ?thesis by simp
next
  case False
  assume a: "workspace_step env w = (r, w0)"
  obtain r' f' x' where "ext_setup_llmware_workspace env (files w, outside w) = (r', (f', x'))"
    by (metis prod.exhaust)
  from ws_step_absent [OF False this] a show ?thesis by auto
qed

lemma ws_step_keeps:
  assumes "keeps_entries (ext_setup_llmware_workspace env)"
    and "workspace_step env w = (r, w0)"
  shows "path_exists (files w) q \<Longrightarrow> path_exists (files w0) q"
    and "path_is_dir (files w) q \<Longrightarrow> path_is_dir (files w0) q"
proof -
  have "(path_exists (files w) q \<longrightarrow> path_exists (files w0) q) \<and>
        (path_is_dir (files w) q \<longrightarrow> path_is_dir (files w0) q)"
  proof (cases "path_exists (files w) (workspace_of env)")
    case True
    from ws_step_present [OF True] assms(2) show ?thesis by simp
  next
    case False
    obtain r' f' x' where e: "ext_setup_llmware_workspace env (files w, outside w) = (r', (f', x'))"
      by (metis prod.exhaust)
    from ws_step_absent [OF False e] assms(2) have "files w0 = f'" by auto
    with keeps_entriesD [OF assms(1) e] show ?thesis by blast
  qed
  then show "path_exists (files w) q \<Longrightarrow> path_exists (files w0) q"
    and "path_is_dir (files w) q \<Longrightarrow> path_is_dir (files w0) q" by blast+
qed

lemma ws_step_makes_dir:
  assumes "setup_makes_workspace env"
    and "path_exists (files w) (workspace_of env) \<longrightarrow> path_is_dir (files w) (workspace_of env)"
    and "workspace_step env w = (Inr (), w0)"
  shows "path_is_dir (files w0) (workspace_of env)"
proof (cases "path_exists (files w) (workspace_of env)")
  case True
  from ws_step_present [OF True] assms(2,3) True show ?thesis by simp
next
  case False
  obtain r' f' x' where e: "ext_setup_llmware_workspace env (files w, outside w) = (r', (f', x'))"
    by (metis prod.exhaust)
  from ws_step_absent [OF False e] assms(3) have "files w0 = f'" "r' = Inr ()" by auto
  with e assms(1) show ?thesis unfolding setup_makes_workspace_def by blast
qed

text \<open>What a download leaves of the filesystem it started from.\<close>

lemma dl_keeps:
  assumes "\<forall>k l b. keeps_entries (ext_pull_file_from_public_s3 env k l b)"
    and "\<forall>a d t. keeps_entries (ext_unpack_archive env a d t)"
    and "download_and_unpack folder p env b v = (r, v')"
  shows "path_is_dir (files v) q \<Longrightarrow> path_is_dir (files v') q"
    and "q \<noteq> joinpath p (folder @ ''.zip'') \<or> isl r \<Longrightarrow> path_exists (files v) q
           \<Longrightarrow> path_exists (files v') q"
proof -
  have "(path_is_dir (files v) q \<longrightarrow> path_is_dir (files v') q) \<and>
        ((q \<noteq> joinpath p (folder @ ''.zip'') \<or> isl r) \<longrightarrow> path_exists (files v) q
           \<longrightarrow> path_exists (files v') q)"
  proof (cases rule: dl_outcomes [of env folder p b v])
    case (pull_raises e f1 x1)
    from dl_pull_raises [OF this] assms(3) have "files v' = f1" by auto
    with keeps_entriesD [OF assms(1) [rule_format] pull_raises] show ?thesis by blast
  next
    case (unpack_raises f1 x1 e f2 x2)
    from dl_unpack_raises [OF this] assms(3) have "files v' = f2" by auto
    with keeps_entriesD [OF assms(1) [rule_format] unpack_raises(1)]
      keeps_entriesD [OF assms(2) [rule_format] unpack_raises(2)]
    show ?thesis by blast
  next
    case (unlink_raises f1 x1 f2 x2 e)
    from dl_unlink_raises [OF this] assms(3) have "files v' = f2" by auto
    with keeps_entriesD [OF assms(1) [rule_format] unlink_raises(1)]
      keeps_entriesD [OF assms(2) [rule_format] unlink_raises(2)]
    show ?thesis by blast
  next
    case (ok f1 x1 f2 x2 f3)
    from dl_ok [OF this] assms(3) have "files v' = f3" "r = Inr ()" by auto
    with keeps_entriesD [OF assms(1) [rule_format] ok(1)]
      keeps_entriesD [OF assms(2) [rule_format] ok(2)]
      unlink_keeps [OF ok(3)]
    show ?thesis by auto
  qed
  then show "path_is_dir (files v) q \<Longrightarrow> path_is_dir (files v') q"
    and "q \<noteq> joinpath p (folder @ ''.zip'') \<or> isl r \<Longrightarrow> path_exists (files v) q
           \<Longrightarrow> path_exists (files v') q" by blast+
qed

text \<open>The ways a loader ends, with the filesystem it leaves.\<close>

lemma loader_outcomes:
  fixes env :: "'x env"
  assumes "run_loader env c w = (r, w')"
  obtains
    (workspace_raises) e where "workspace_step env w = (Inl e, w')" "r = Inl e"
  | (present) w0 where "workspace_step env w = (Inr (), w0)"
      "path_exists (files w0) (target_of env c)" "\<not> over_write_of c"
      "r = Inr (target_of env c)" "files w' = files w0" "outside w' = outside w0"
      "calls w' = calls w0"
  | (mkdir_raises) w0 e where "workspace_step env w = (Inr (), w0)"
      "over_write_of c \<or> \<not> path_exists (files w0) (target_of env c)"
      "mkdir (target_of env c) (files w0) = Inl e" "r = Inl e" "w' = w0"
  | (download) w0 f1 v rd where "workspace_step env w = (Inr (), w0)"
      "over_write_of c \<or> \<not> path_exists (files w0) (target_of env c)"
      "mkdir (target_of env c) (files w0) = Inr f1"
      "files v = f1" "outside v = outside w0" "calls v = calls w0"
      "download_and_unpack (folder_of c) (target_of env c) env (bucket_of env) v = (rd, w')"
      "r = (case rd of Inl e \<Rightarrow> Inl e | Inr u \<Rightarrow> Inr (target_of env c))"
proof -
  obtain r0 w0 where s: "workspace_step env w = (r0, w0)" by (metis prod.exhaust)
  show thesis
  proof (cases r0)
    case (Inl e)
    with s run_loader_ws_raises [of env w e w0 c] assms workspace_raises show ?thesis by simp
  next
    case (Inr u)
    with s have s': "workspace_step env w = (Inr (), w0)" by simp
    show ?thesis
    proof (cases "path_exists (files w0) (target_of env c) \<and> \<not> over_write_of c")
      case True
      with run_loader_short [OF s', of c] assms present [OF s'] show ?thesis by auto
    next
      case False
      then have b: "over_write_of c \<or> \<not> path_exists (files w0) (target_of env c)" by blast
      show ?thesis
      proof (cases "mkdir (target_of env c) (files w0)")
        case (Inl e)
        from run_loader_mkdir_raises [OF s' b Inl] assms mkdir_raises [OF s' b Inl]
        show ?thesis by simp
      next
        case (Inr f1)
        let ?v = "before_download w0 f1 (log w0 @ [LogInfo (download_note c)])"
        obtain rd v' where d: "download_and_unpack (folder_of c) (target_of env c) env
            (bucket_of env) ?v = (rd, v')" by (metis prod.exhaust)
        from loader_download_result [OF s' b Inr d] assms
        have "r = (case rd of Inl e \<Rightarrow> Inl e | Inr u \<Rightarrow> Inr (target_of env c))" "v' = w'"
          by simp_all
        with d download [OF s' b Inr, of ?v rd] show ?thesis
          by (simp add: before_download_def)
      qed
    qed
  qed
qed

lemma network_calls_ws_step:
  "workspace_step env w = (r, w0) \<Longrightarrow>
     network_calls w0 = network_calls w \<and> extractor_calls w0 = extractor_calls w"
  using ws_step_calls [of env w r w0]
  by (auto simp: network_calls_def extractor_calls_def)

text \<open>After any call, under collaborators that keep entries.\<close>

lemma loader_keeps:
  assumes "collaborators_keep_entries env" and "run_loader env c w = (r, w')"
  shows "path_is_dir (files w) q \<Longrightarrow> path_is_dir (files w') q"
    and "q \<noteq> local_zip_of env c \<or> isl r \<Longrightarrow> path_exists (files w) q \<Longrightarrow> path_exists (files w') q"
proof -
  from assms(1) have ks: "keeps_entries (ext_setup_llmware_workspace env)"
    and kp: "\<forall>k l b. keeps_entries (ext_pull_file_from_public_s3 env k l b)"
    and ku: "\<forall>a d t. keeps_entries (ext_unpack_archive env a d t)"
    unfolding collaborators_keep_entries_def by blast+
  have "(path_is_dir (files w) q \<longrightarrow> path_is_dir (files w') q) \<and>
        ((q \<noteq> local_zip_of env c \<or> isl r) \<longrightarrow> path_exists (files w) q \<longrightarrow> path_exists (files w') q)"
  using assms(2)
  proof (cases rule: loader_outcomes)
    case (workspace_raises e)
    with ws_step_keeps [OF ks workspace_raises(1)] show ?thesis by blast
  next
    case (present w0)
    with ws_step_keeps [OF ks present(1)] show ?thesis by simp
  next
    case (mkdir_raises w0 e)
    with ws_step_keeps [OF ks mkdir_raises(1)] show ?thesis by simp
  next
    case (download w0 f1 v rd)
    have i: "isl r = isl rd" using download(8) by (cases rd) simp_all
    from ws_step_keeps [OF ks download(1)] mkdir_keeps [OF download(3)]
      dl_keeps [OF kp ku download(7), of q] download(4) i
    show ?thesis unfolding local_zip_of_def by blast
  qed
  then show "path_is_dir (files w) q \<Longrightarrow> path_is_dir (files w') q"
    and "q \<noteq> local_zip_of env c \<or> isl r \<Longrightarrow> path_exists (files w) q \<Longrightarrow> path_exists (files w') q"
    by blast+
qed

text \<open>Once the directory has been made, it is a directory when the call ends.\<close>

lemma loader_target_dir:
  assumes "collaborators_keep_entries env" and "run_loader env c w = (r, w')"
    and "workspace_step env w = (Inr (), w0)"
    and "over_write_of c \<or> \<not> path_exists (files w0) (target_of env c)"
    and "mkdir (target_of env c) (files w0) = Inr f1"
  shows "path_is_dir (files w') (target_of env c)"
    and "path_is_dir (files w0) q \<Longrightarrow> path_is_dir (files w') q"
proof -
  from assms(1) have kp: "\<forall>k l b. keeps_entries (ext_pull_file_from_public_s3 env k l b)"
    and ku: "\<forall>a d t. keeps_entries (ext_unpack_archive env a d t)"
    unfolding collaborators_keep_entries_def by blast+
  let ?v = "before_download w0 f1 (log w0 @ [LogInfo (download_note c)])"
  obtain rd v' where d: "download_and_unpack (folder_of c) (target_of env c) env
      (bucket_of env) ?v = (rd, v')" by (metis prod.exhaust)
  from loader_download_result [OF assms(3,4,5) d] assms(2) have v: "v' = w'" by simp
  have f: "files ?v = f1" by (simp add: before_download_def)
  from dl_keeps(1) [OF kp ku d] mkdir_is_dir [OF assms(5)] f v
  show "path_is_dir (files w') (target_of env c)" by simp
  from dl_keeps(1) [OF kp ku d, of q] mkdir_keeps(2) [OF assms(5), of q] f v
  show "path_is_dir (files w0) q \<Longrightarrow> path_is_dir (files w') q" by simp
qed

lemma collaborators_keep_download:
  "collaborators_keep_entries env \<Longrightarrow> download_keeps_entries env"
  by (simp add: collaborators_keep_entries_def download_keeps_entries_def)

lemma loader_download_leaves_dir:
  assumes "download_keeps_entries env" and "run_loader env c w = (r, w')"
    and "workspace_step env w = (Inr (), w0)"
    and "over_write_of c \<or> \<not> path_exists (files w0) (target_of env c)"
    and "mkdir (target_of env c) (files w0) = Inr f1"
  shows "path_is_dir (files w') (target_of env c)"
proof -
  from assms(1) have kp: "\<forall>k l b. keeps_entries (ext_pull_file_from_public_s3 env k l b)"
    and ku: "\<forall>a d t. keeps_entries (ext_unpack_archive env a d t)"
    unfolding download_keeps_entries_def by blast+
  let ?v = "before_download w0 f1 (log w0 @ [LogInfo (download_note c)])"
  obtain rd v' where d: "download_and_unpack (folder_of c) (target_of env c) env
      (bucket_of env) ?v = (rd, v')" by (metis prod.exhaust)
  from loader_download_result [OF assms(3,4,5) d] assms(2) have v: "v' = w'" by simp
  have f: "files ?v = f1" by (simp add: before_download_def)
  from dl_keeps(1) [OF kp ku d] mkdir_is_dir [OF assms(5)] f v
  show ?thesis by simp
qed

lemma dl_adds_network_call:
  "download_and_unpack folder p env b v = (r, v') \<Longrightarrow> network_calls v' \<noteq> network_calls v"
  using dl_first_call [of folder p env b v]
  by (auto simp: network_calls_def)

lemmas world_eval = world0_def workspace_only_def sample_present_def stale_archive_def
  file_in_the_way_def voice_present_def bad_folder_made_def

subsection \<open>The reference collaborators keep entries\<close>

lemma ref_setup_keeps: "keeps_entries (ref_setup ws)"
  unfolding keeps_entries_def
proof (intro allI impI)
  fix f :: filesys and x :: 'a and r f' x' q
  assume a: "ref_setup ws (f, x) = (r, (f', x'))"
  show "(path_exists f q \<longrightarrow> path_exists f' q) \<and> (path_is_dir f q \<longrightarrow> path_is_dir f' q)"
  proof (cases "mkdir (Path ws) f")
    case (Inl e)
    with a show ?thesis by (simp add: ref_setup_def)
  next
    case (Inr g)
    with a have "f' = g" by (simp add: ref_setup_def)
    with mkdir_keeps [OF Inr, of q] show ?thesis by blast
  qed
qed

lemma ref_pull_keeps: "keeps_entries (ref_pull k l b)"
  unfolding keeps_entries_def
  by (auto simp: ref_pull_def path_exists_def path_is_dir_def node_at_def
           split: option.splits if_splits)

lemma extract_members_keeps:
  "extract_members dst ms f = (r, f') \<Longrightarrow>
     (path_exists f q \<longrightarrow> path_exists f' q) \<and> (path_is_dir f q \<longrightarrow> path_is_dir f' q)"
proof (induction ms arbitrary: f)
  case Nil
  then show ?case by simp
next
  case (Cons m ms)
  let ?t = "joinpath dst (fst m)"
  show ?case
  proof (cases "path_is_dir f ?t")
    case True
    with Cons.prems show ?thesis by (simp add: Let_def)
  next
    case False
    with Cons.prems have "extract_members dst ms (f(?t \<mapsto> File (Blob (snd m)))) = (r, f')"
      by (simp add: Let_def)
    from Cons.IH [OF this] False show ?thesis
      by (auto simp: path_exists_def path_is_dir_def node_at_def split: if_splits)
  qed
qed

lemma ref_unpack_keeps: "keeps_entries (ref_unpack a d t)"
  unfolding keeps_entries_def
proof (intro allI impI)
  fix f :: filesys and x :: 'a and r f' x' q
  assume a: "ref_unpack a d t (f, x) = (r, (f', x'))"
  show "(path_exists f q \<longrightarrow> path_exists f' q) \<and> (path_is_dir f q \<longrightarrow> path_is_dir f' q)"
  proof (cases "\<exists>ms. node_at f (Path a) = Some (File (ZipArchive ms))")
    case True
    then obtain ms where n: "node_at f (Path a) = Some (File (ZipArchive ms))" by blast
    obtain r1 g where e: "extract_members (Path d) ms f = (r1, g)" by (metis prod.exhaust)
    with a n have "f' = g" by (simp add: ref_unpack_def)
    with extract_members_keeps [OF e, of q] show ?thesis by blast
  next
    case False
    with a have "f' = f"
      by (auto simp: ref_unpack_def split: option.splits node.splits content.splits)
    then show ?thesis by simp
  qed
qed

lemma ref_env_keeps: "collaborators_keep_entries (ref_env ws b)"
  by (simp add: collaborators_keep_entries_def ref_env_def ref_setup_keeps ref_pull_keeps
        ref_unpack_keeps)

lemma ref_env_setup: "setup_makes_workspace (ref_env ws b)"
  unfolding setup_makes_workspace_def
  by (auto simp: ref_env_def ref_setup_def workspace_of_def split: sum.splits
           dest: mkdir_is_dir)

lemma loader_unpack_raises:
  assumes "workspace_step env w = (Inr (), w0)"
    and "over_write_of c \<or> \<not> path_exists (files w0) (target_of env c)"
    and "mkdir (target_of env c) (files w0) = Inr f1"
    and "ext_pull_file_from_public_s3 env (folder_of c @ ''.zip'') (str (local_zip_of env c))
           (bucket_of env) (f1, outside w0) = (Inr (), (g, y))"
    and "ext_unpack_archive env (str (local_zip_of env c)) (str (target_of env c)) ''zip'' (g, y)
           = (Inl e, (f2, x2))"
  shows "\<exists>w'. run_loader env c w = (Inl (if exn_is_Exception e then wrapped (folder_of c) e else e), w') \<and>
           files w' = f2 \<and> outside w' = x2 \<and>
           calls w' = calls w0 @ [pull_call env c, unpack_call env c]"
proof -
  let ?w1 = "before_download w0 f1 (log w0 @ [LogInfo (download_note c)])"
  have fo: "files ?w1 = f1" "outside ?w1 = outside w0" "calls ?w1 = calls w0"
    by (simp_all add: before_download_def)
  from dl_unpack_raises [of env "folder_of c" "target_of env c" "bucket_of env" ?w1 g y e f2 x2]
    assms(4,5)
  obtain w' where d: "download_and_unpack (folder_of c) (target_of env c) env (bucket_of env) ?w1
      = (Inl (if exn_is_Exception e then wrapped (folder_of c) e else e), w')"
    and p: "files w' = f2" "outside w' = x2"
      "calls w' = calls w0 @ [pull_call env c, unpack_call env c]"
    unfolding fo local_zip_of_def pull_call_def unpack_call_def by auto
  from loader_download_result [OF assms(1,2,3) d] p show ?thesis by simp
qed


subsection \<open>The example runs\<close>

lemma ex_paths:
  "Path ''/w'' = PurePath ''/'' [''w'']"
  "joinpath (PurePath ''/'' [''w'']) ''sample_files'' = PurePath ''/'' [''w'', ''sample_files'']"
  "joinpath (PurePath ''/'' [''w'', ''sample_files'']) ''sample_files.zip''
     = PurePath ''/'' [''w'', ''sample_files'', ''sample_files.zip'']"
  "joinpath (PurePath ''/'' [''w'', ''sample_files'']) ''readme.txt''
     = PurePath ''/'' [''w'', ''sample_files'', ''readme.txt'']"
  "str (PurePath ''/'' [''w'', ''sample_files'']) = ''/w/sample_files''"
  "str (PurePath ''/'' [''w'', ''sample_files'', ''sample_files.zip''])
     = ''/w/sample_files/sample_files.zip''"
  "Path ''/w/sample_files'' = PurePath ''/'' [''w'', ''sample_files'']"
  "Path ''/w/sample_files/sample_files.zip''
     = PurePath ''/'' [''w'', ''sample_files'', ''sample_files.zip'']"
  "joinpath (PurePath ''/'' [''w'']) ''bad'' = PurePath ''/'' [''w'', ''bad'']"
  "joinpath (PurePath ''/'' [''w'', ''bad'']) ''bad.zip'' = PurePath ''/'' [''w'', ''bad'', ''bad.zip'']"
  "str (PurePath ''/'' [''w'', ''bad'']) = ''/w/bad''"
  "str (PurePath ''/'' [''w'', ''bad'', ''bad.zip'']) = ''/w/bad/bad.zip''"
  "Path ''/w/bad/bad.zip'' = PurePath ''/'' [''w'', ''bad'', ''bad.zip'']"
  "joinpath (PurePath ''/'' [''w'']) ''voice_sample_files_small''
     = PurePath ''/'' [''w'', ''voice_sample_files_small'']"
  "joinpath (PurePath ''/'' [''w'', ''voice_sample_files_small'']) ''voice_small.zip''
     = PurePath ''/'' [''w'', ''voice_sample_files_small'', ''voice_small.zip'']"
  "str (PurePath ''/'' [''w'', ''voice_sample_files_small'', ''voice_small.zip''])
     = ''/w/voice_sample_files_small/voice_small.zip''"
  by (simp_all add: path_eval)

lemma ex_env:
  "cfg_llmware_path example_env = ''/w''"
  "cfg_config example_env ''llmware_sample_files_bucket'' = ''b''"
  "ext_setup_llmware_workspace example_env = ref_setup ''/w''"
  "ext_pull_file_from_public_s3 example_env = ref_pull"
  "ext_unpack_archive example_env = ref_unpack"
  "workspace_of example_env = PurePath ''/'' [''w'']"
  "bucket_of example_env = ''b''"
  by (simp_all add: example_env_def ref_env_def workspace_of_def bucket_of_def ex_paths)

lemma ex_sample_names:
  "target_of example_env (LoadSampleFiles ow) = PurePath ''/'' [''w'', ''sample_files'']"
  "local_zip_of example_env (LoadSampleFiles ow)
     = PurePath ''/'' [''w'', ''sample_files'', ''sample_files.zip'']"
  "pull_call example_env (LoadSampleFiles ow)
     = PullFile ''sample_files.zip'' ''/w/sample_files/sample_files.zip'' ''b''"
  "unpack_call example_env (LoadSampleFiles ow)
     = UnpackArchive ''/w/sample_files/sample_files.zip'' ''/w/sample_files'' ''zip''"
  by (simp_all add: target_of_def local_zip_of_def pull_call_def unpack_call_def ex_env ex_paths)

lemma ex_bad_names:
  "target_of example_env (LoadSelectedSampleFiles (Some ''bad'') ow) = PurePath ''/'' [''w'', ''bad'']"
  "local_zip_of example_env (LoadSelectedSampleFiles (Some ''bad'') ow)
     = PurePath ''/'' [''w'', ''bad'', ''bad.zip'']"
  "pull_call example_env (LoadSelectedSampleFiles (Some ''bad'') ow)
     = PullFile ''bad.zip'' ''/w/bad/bad.zip'' ''b''"
  "unpack_call example_env (LoadSelectedSampleFiles (Some ''bad'') ow)
     = UnpackArchive ''/w/bad/bad.zip'' ''/w/bad'' ''zip''"
  by (simp_all add: target_of_def local_zip_of_def pull_call_def unpack_call_def ex_env ex_paths)

lemma ex_ws_steps:
  "workspace_step example_env workspace_only = (Inr (), workspace_only)"
  "workspace_step example_env sample_present = (Inr (), sample_present)"
  "workspace_step example_env stale_archive = (Inr (), stale_archive)"
  "workspace_step example_env file_in_the_way = (Inr (), file_in_the_way)"
  "workspace_step example_env voice_present = (Inr (), voice_present)"
  by (rule ws_step_present, simp add: ex_env world_eval fs_eval)+

text \<open>A first download into an empty workspace.\<close>

lemma ex_fresh_run:
  "\<exists>w'. run_loader example_env (LoadSampleFiles None) workspace_only
          = (Inr (PurePath ''/'' [''w'', ''sample_files'']), w') \<and>
        files w' = [PurePath ''/'' [''w''] \<mapsto> Dir,
                    PurePath ''/'' [''w'', ''sample_files''] \<mapsto> Dir,
                    PurePath ''/'' [''w'', ''sample_files'', ''readme.txt''] \<mapsto> File (Blob ''hello'')] \<and>
        outside w' = example_store \<and>
        calls w' = [PullFile ''sample_files.zip'' ''/w/sample_files/sample_files.zip'' ''b'',
                    UnpackArchive ''/w/sample_files/sample_files.zip'' ''/w/sample_files'' ''zip'']"
proof -
  let ?c = "LoadSampleFiles None"
  let ?T = "PurePath ''/'' [''w'', ''sample_files'']"
  let ?Z = "PurePath ''/'' [''w'', ''sample_files'', ''sample_files.zip'']"
  let ?R = "PurePath ''/'' [''w'', ''sample_files'', ''readme.txt'']"
  let ?f1 = "[PurePath ''/'' [''w''] \<mapsto> Dir, ?T \<mapsto> Dir]"
  let ?f2 = "?f1(?Z \<mapsto> File (ZipArchive [(''readme.txt'', ''hello'')]))"
  let ?f3 = "?f2(?R \<mapsto> File (Blob ''hello''))"
  let ?f4 = "[PurePath ''/'' [''w''] \<mapsto> Dir, ?T \<mapsto> Dir, ?R \<mapsto> File (Blob ''hello'')]"
  have b: "over_write_of ?c \<or> \<not> path_exists (files workspace_only) (target_of example_env ?c)"
    by (simp add: ex_sample_names world_eval fs_eval)
  have m: "mkdir (target_of example_env ?c) (files workspace_only) = Inr ?f1"
    by (simp add: ex_sample_names world_eval fs_eval)
  have p: "ext_pull_file_from_public_s3 example_env (folder_of ?c @ ''.zip'')
             (str (local_zip_of example_env ?c)) (bucket_of example_env)
             (?f1, outside workspace_only) = (Inr (), (?f2, example_store))"
    by (simp add: ex_sample_names ex_env ex_paths world_eval ref_pull_def example_store_def fs_eval)
  have u: "ext_unpack_archive example_env (str (local_zip_of example_env ?c))
             (str (target_of example_env ?c)) ''zip'' (?f2, example_store)
           = (Inr (), (?f3, example_store))"
    by (simp add: ex_sample_names ex_env ex_paths ref_unpack_def fs_eval)
  have d: "unlink (local_zip_of example_env ?c) ?f3 = Inr ?f4"
    by (simp add: ex_sample_names fs_eval fun_upd_twist)
  from loader_download_ok [OF ex_ws_steps(1) b m p u d]
  show ?thesis by (simp add: ex_sample_names world_eval)
qed


text \<open>
  A download with \<^verbatim>\<open>over_write=True\<close> into a directory that holds an older file and the
  archive file a failed run left behind.
\<close>

lemma ex_stale_run:
  "\<exists>w'. run_loader example_env (LoadSampleFiles (Some True)) stale_archive
          = (Inr (PurePath ''/'' [''w'', ''sample_files'']), w') \<and>
        files w' = [PurePath ''/'' [''w''] \<mapsto> Dir,
                    PurePath ''/'' [''w'', ''sample_files''] \<mapsto> Dir,
                    PurePath ''/'' [''w'', ''sample_files'', ''old.txt''] \<mapsto> File (Blob ''old''),
                    PurePath ''/'' [''w'', ''sample_files'', ''readme.txt''] \<mapsto> File (Blob ''hello'')] \<and>
        outside w' = example_store \<and>
        calls w' = [PullFile ''sample_files.zip'' ''/w/sample_files/sample_files.zip'' ''b'',
                    UnpackArchive ''/w/sample_files/sample_files.zip'' ''/w/sample_files'' ''zip'']"
proof -
  let ?c = "LoadSampleFiles (Some True)"
  let ?T = "PurePath ''/'' [''w'', ''sample_files'']"
  let ?Z = "PurePath ''/'' [''w'', ''sample_files'', ''sample_files.zip'']"
  let ?O = "PurePath ''/'' [''w'', ''sample_files'', ''old.txt'']"
  let ?R = "PurePath ''/'' [''w'', ''sample_files'', ''readme.txt'']"
  let ?f1 = "[PurePath ''/'' [''w''] \<mapsto> Dir, ?T \<mapsto> Dir, ?O \<mapsto> File (Blob ''old''),
              ?Z \<mapsto> File (Blob ''stale'')]"
  let ?f2 = "[PurePath ''/'' [''w''] \<mapsto> Dir, ?T \<mapsto> Dir, ?O \<mapsto> File (Blob ''old''),
              ?Z \<mapsto> File (ZipArchive [(''readme.txt'', ''hello'')])]"
  let ?f3 = "?f2(?R \<mapsto> File (Blob ''hello''))"
  let ?f4 = "[PurePath ''/'' [''w''] \<mapsto> Dir, ?T \<mapsto> Dir, ?O \<mapsto> File (Blob ''old''),
              ?R \<mapsto> File (Blob ''hello'')]"
  have b: "over_write_of ?c \<or> \<not> path_exists (files stale_archive) (target_of example_env ?c)"
    by simp
  have m: "mkdir (target_of example_env ?c) (files stale_archive) = Inr ?f1"
    by (simp add: ex_sample_names world_eval fs_eval)
  have p: "ext_pull_file_from_public_s3 example_env (folder_of ?c @ ''.zip'')
             (str (local_zip_of example_env ?c)) (bucket_of example_env)
             (?f1, outside stale_archive) = (Inr (), (?f2, example_store))"
    by (simp add: ex_sample_names ex_env ex_paths world_eval ref_pull_def example_store_def fs_eval)
  have u: "ext_unpack_archive example_env (str (local_zip_of example_env ?c))
             (str (target_of example_env ?c)) ''zip'' (?f2, example_store)
           = (Inr (), (?f3, example_store))"
    by (simp add: ex_sample_names ex_env ex_paths ref_unpack_def fs_eval)
  have d: "unlink (local_zip_of example_env ?c) ?f3 = Inr ?f4"
    by (simp add: ex_sample_names fs_eval fun_upd_twist)
  from loader_download_ok [OF ex_ws_steps(3) b m p u d]
  show ?thesis by (simp add: ex_sample_names world_eval)
qed

text \<open>A download whose object is not an archive.\<close>

lemma ex_bad_facts:
  "over_write_of (LoadSelectedSampleFiles (Some ''bad'') None)
     \<or> \<not> path_exists (files workspace_only)
           (target_of example_env (LoadSelectedSampleFiles (Some ''bad'') None))"
  "mkdir (target_of example_env (LoadSelectedSampleFiles (Some ''bad'') None)) (files workspace_only)
     = Inr [PurePath ''/'' [''w''] \<mapsto> Dir, PurePath ''/'' [''w'', ''bad''] \<mapsto> Dir]"
  "ext_pull_file_from_public_s3 example_env
       (folder_of (LoadSelectedSampleFiles (Some ''bad'') None) @ ''.zip'')
       (str (local_zip_of example_env (LoadSelectedSampleFiles (Some ''bad'') None)))
       (bucket_of example_env)
       ([PurePath ''/'' [''w''] \<mapsto> Dir, PurePath ''/'' [''w'', ''bad''] \<mapsto> Dir],
        outside workspace_only)
     = (Inr (), ([PurePath ''/'' [''w''] \<mapsto> Dir, PurePath ''/'' [''w'', ''bad''] \<mapsto> Dir,
                  PurePath ''/'' [''w'', ''bad'', ''bad.zip''] \<mapsto> File (Blob ''junk'')],
                 example_store))"
  "ext_unpack_archive example_env
       (str (local_zip_of example_env (LoadSelectedSampleFiles (Some ''bad'') None)))
       (str (target_of example_env (LoadSelectedSampleFiles (Some ''bad'') None))) ''zip''
       ([PurePath ''/'' [''w''] \<mapsto> Dir, PurePath ''/'' [''w'', ''bad''] \<mapsto> Dir,
         PurePath ''/'' [''w'', ''bad'', ''bad.zip''] \<mapsto> File (Blob ''junk'')],
        example_store)
     = (Inl (PyExn ''ReadError'' True ''/w/bad/bad.zip is not a zip file'' None),
        ([PurePath ''/'' [''w''] \<mapsto> Dir, PurePath ''/'' [''w'', ''bad''] \<mapsto> Dir,
          PurePath ''/'' [''w'', ''bad'', ''bad.zip''] \<mapsto> File (Blob ''junk'')],
         example_store))"
  by (simp_all add: ex_bad_names ex_env ex_paths world_eval ref_pull_def ref_unpack_def
        example_store_def fs_eval)

lemma ex_bad_run:
  "\<exists>w'. run_loader example_env (LoadSelectedSampleFiles (Some ''bad'') None) workspace_only
          = (Inl (wrapped ''bad'' (PyExn ''ReadError'' True ''/w/bad/bad.zip is not a zip file'' None)),
             w') \<and>
        files w' = [PurePath ''/'' [''w''] \<mapsto> Dir, PurePath ''/'' [''w'', ''bad''] \<mapsto> Dir,
                    PurePath ''/'' [''w'', ''bad'', ''bad.zip''] \<mapsto> File (Blob ''junk'')] \<and>
        outside w' = example_store \<and>
        calls w' = [PullFile ''bad.zip'' ''/w/bad/bad.zip'' ''b'',
                    UnpackArchive ''/w/bad/bad.zip'' ''/w/bad'' ''zip'']"
  using loader_unpack_raises [OF ex_ws_steps(1) ex_bad_facts]
  by (simp add: ex_bad_names world_eval)

lemma ex_sample_present_facts:
  "path_exists (files sample_present) (target_of example_env (LoadSampleFiles ow))"
  "path_is_dir (files sample_present) (target_of example_env (LoadSampleFiles ow))"
  "calls sample_present = []"
  "outside sample_present = example_store"
  by (simp_all add: ex_sample_names world_eval fs_eval)

lemma example_env_keeps: "collaborators_keep_entries example_env"
  unfolding example_env_def by (rule ref_env_keeps)

lemma example_env_setup: "setup_makes_workspace example_env"
  unfolding example_env_def by (rule ref_env_setup)

lemma ex_workspace_only_facts:
  "path_is_dir (files workspace_only) (workspace_of example_env)"
  "calls workspace_only = []"
  "outside workspace_only = example_store"
  "\<not> path_exists (files workspace_only) (target_of example_env (LoadSampleFiles ow))"
  by (simp_all add: ex_env ex_sample_names world_eval fs_eval)

lemma ex_bad_second_call:
  "target_of example_env (LoadSelectedSampleFiles (Some ''bad'') (Some False))
     = target_of example_env (LoadSelectedSampleFiles (Some ''bad'') None)"
  "\<not> over_write_of (LoadSelectedSampleFiles (Some ''bad'') (Some False))"
  by (simp_all add: target_of_def)

lemma example_env_download_keeps: "download_keeps_entries example_env"
  by (rule collaborators_keep_download) (rule example_env_keeps)

lemma ex_voice_paths:
  "joinpath (PurePath ''/'' [''w'', ''voice_sample_files_small'']) ''a.wav''
     = PurePath ''/'' [''w'', ''voice_sample_files_small'', ''a.wav'']"
  "str (PurePath ''/'' [''w'', ''voice_sample_files_small'']) = ''/w/voice_sample_files_small''"
  "Path ''/w/voice_sample_files_small'' = PurePath ''/'' [''w'', ''voice_sample_files_small'']"
  "Path ''/w/voice_sample_files_small/voice_small.zip''
     = PurePath ''/'' [''w'', ''voice_sample_files_small'', ''voice_small.zip'']"
  by (simp_all add: path_eval)

lemma ex_voice_names:
  "target_of example_env (LoadVoiceSampleFiles ow (Some True))
     = PurePath ''/'' [''w'', ''voice_sample_files_small'']"
  "local_zip_of example_env (LoadVoiceSampleFiles ow (Some True))
     = PurePath ''/'' [''w'', ''voice_sample_files_small'', ''voice_small.zip'']"
  "pull_call example_env (LoadVoiceSampleFiles ow (Some True))
     = PullFile ''voice_small.zip'' ''/w/voice_sample_files_small/voice_small.zip'' ''b''"
  "unpack_call example_env (LoadVoiceSampleFiles ow (Some True))
     = UnpackArchive ''/w/voice_sample_files_small/voice_small.zip''
         ''/w/voice_sample_files_small'' ''zip''"
  by (simp_all add: target_of_def local_zip_of_def pull_call_def unpack_call_def ex_env ex_paths
        ex_voice_paths)

lemma ex_voice_blocked_step:
  "workspace_step example_env voice_blocked = (Inr (), voice_blocked)"
  by (rule ws_step_present) (simp add: ex_env voice_blocked_def world0_def fs_eval)

text \<open>A first download of the small voice samples into an empty workspace.\<close>

lemma ex_voice_run:
  "\<exists>w'. load_voice_sample_files example_env (Some False) (Some True) workspace_only
          = (Inr (PurePath ''/'' [''w'', ''voice_sample_files_small'']), w') \<and>
        files w' = [PurePath ''/'' [''w''] \<mapsto> Dir,
                    PurePath ''/'' [''w'', ''voice_sample_files_small''] \<mapsto> Dir,
                    PurePath ''/'' [''w'', ''voice_sample_files_small'', ''a.wav'']
                      \<mapsto> File (Blob ''RIFF'')] \<and>
        calls w' = [PullFile ''voice_small.zip'' ''/w/voice_sample_files_small/voice_small.zip'' ''b'',
                    UnpackArchive ''/w/voice_sample_files_small/voice_small.zip''
                      ''/w/voice_sample_files_small'' ''zip'']"
proof -
  let ?c = "LoadVoiceSampleFiles (Some False) (Some True)"
  let ?T = "PurePath ''/'' [''w'', ''voice_sample_files_small'']"
  let ?Z = "PurePath ''/'' [''w'', ''voice_sample_files_small'', ''voice_small.zip'']"
  let ?R = "PurePath ''/'' [''w'', ''voice_sample_files_small'', ''a.wav'']"
  let ?f1 = "[PurePath ''/'' [''w''] \<mapsto> Dir, ?T \<mapsto> Dir]"
  let ?f2 = "?f1(?Z \<mapsto> File (ZipArchive [(''a.wav'', ''RIFF'')]))"
  let ?f3 = "?f2(?R \<mapsto> File (Blob ''RIFF''))"
  let ?f4 = "[PurePath ''/'' [''w''] \<mapsto> Dir, ?T \<mapsto> Dir, ?R \<mapsto> File (Blob ''RIFF'')]"
  have b: "over_write_of ?c \<or> \<not> path_exists (files workspace_only) (target_of example_env ?c)"
    by (simp add: ex_voice_names world_eval fs_eval)
  have m: "mkdir (target_of example_env ?c) (files workspace_only) = Inr ?f1"
    by (simp add: ex_voice_names world_eval fs_eval)
  have p: "ext_pull_file_from_public_s3 example_env (folder_of ?c @ ''.zip'')
             (str (local_zip_of example_env ?c)) (bucket_of example_env)
             (?f1, outside workspace_only) = (Inr (), (?f2, example_store))"
    by (simp add: ex_voice_names ex_env ex_paths ex_voice_paths world_eval ref_pull_def
          example_store_def fs_eval)
  have u: "ext_unpack_archive example_env (str (local_zip_of example_env ?c))
             (str (target_of example_env ?c)) ''zip'' (?f2, example_store)
           = (Inr (), (?f3, example_store))"
    by (simp add: ex_voice_names ex_env ex_paths ex_voice_paths ref_unpack_def fs_eval)
  have d: "unlink (local_zip_of example_env ?c) ?f3 = Inr ?f4"
    by (simp add: ex_voice_names fs_eval fun_upd_twist)
  from loader_download_ok [OF ex_ws_steps(1) b m p u d]
  show ?thesis by (auto simp: ex_voice_names world_eval)
qed

subsection \<open>Claims\<close>

text \<open>
  C1. Every loader, once the workspace block has returned, looks whether its directory
  exists; if it does and \<^verbatim>\<open>over_write\<close> is false it returns the path of that directory at
  once: the filesystem and the outside world stay as the workspace block left them, and no
  call goes to the storage client or to the extractor. (Where the workspace root exists the
  workspace block does nothing at all, lemma \<open>ws_step_present\<close>, and the world returned is
  the world of the call but for the log.) Hence a loader called twice with
  \<^verbatim>\<open>over_write\<close> false fetches on the first call at most: when the first call returns a path,
  the second returns the same path and makes no call at all. The second part is about a
  first call that may have downloaded, so it needs collaborators that keep the entries of
  the filesystem, a workspace initialisation that makes the workspace root, and a
  workspace root that is not a regular file.
\<close>

theorem short_circuit_and_idempotence:
  "(workspace_step env w = (Inr (), w0) \<and> path_exists (files w0) (target_of env c)
      \<and> \<not> over_write_of c \<longrightarrow>
      (\<exists>w'. run_loader env c w = (Inr (target_of env c), w') \<and>
         files w' = files w0 \<and> outside w' = outside w0 \<and> calls w' = calls w0 \<and>
         network_calls w' = network_calls w \<and> extractor_calls w' = extractor_calls w))
   \<and>
   (collaborators_keep_entries env \<and> setup_makes_workspace env
      \<and> (path_exists (files v) (workspace_of env) \<longrightarrow> path_is_dir (files v) (workspace_of env))
      \<and> \<not> over_write_of c \<and> run_loader env c v = (Inr p, v1) \<longrightarrow>
      (\<exists>v2. run_loader env c v1 = (Inr p, v2) \<and>
         files v2 = files v1 \<and> outside v2 = outside v1 \<and> calls v2 = calls v1))"
proof (intro conjI impI)
  assume "workspace_step env w = (Inr (), w0) \<and> path_exists (files w0) (target_of env c)
      \<and> \<not> over_write_of c"
  then have s: "workspace_step env w = (Inr (), w0)"
    and e: "path_exists (files w0) (target_of env c)" and o: "\<not> over_write_of c" by blast+
  from run_loader_short [OF s e o] network_calls_ws_step [OF s]
  show "\<exists>w'. run_loader env c w = (Inr (target_of env c), w') \<and>
         files w' = files w0 \<and> outside w' = outside w0 \<and> calls w' = calls w0 \<and>
         network_calls w' = network_calls w \<and> extractor_calls w' = extractor_calls w"
    by (auto simp: network_calls_def extractor_calls_def)
next
  assume "collaborators_keep_entries env \<and> setup_makes_workspace env
      \<and> (path_exists (files v) (workspace_of env) \<longrightarrow> path_is_dir (files v) (workspace_of env))
      \<and> \<not> over_write_of c \<and> run_loader env c v = (Inr p, v1)"
  then have k: "collaborators_keep_entries env" and m: "setup_makes_workspace env"
    and d: "path_exists (files v) (workspace_of env) \<longrightarrow> path_is_dir (files v) (workspace_of env)"
    and o: "\<not> over_write_of c" and r: "run_loader env c v = (Inr p, v1)" by blast+
  have "p = target_of env c \<and> path_exists (files v1) p \<and> path_is_dir (files v1) (workspace_of env)"
    using r
  proof (cases rule: loader_outcomes)
    case (workspace_raises e)
    then show ?thesis by simp
  next
    case (present w0)
    with ws_step_makes_dir [OF m d present(1)] show ?thesis by simp
  next
    case (mkdir_raises w0 e)
    then show ?thesis by simp
  next
    case (download w0 f1 u rd)
    from download(8) have p: "p = target_of env c" by (cases rd) simp_all
    from loader_target_dir [OF k r download(1,2,3)] ws_step_makes_dir [OF m d download(1)] p
    show ?thesis by (simp add: path_is_dir_def path_exists_def)
  qed
  then have p: "p = target_of env c" and e: "path_exists (files v1) (target_of env c)"
    and ws: "path_exists (files v1) (workspace_of env)"
    by (auto simp: path_is_dir_def path_exists_def)
  from run_loader_short [OF ws_step_present [OF ws] e o] p
  show "\<exists>v2. run_loader env c v1 = (Inr p, v2) \<and>
         files v2 = files v1 \<and> outside v2 = outside v1 \<and> calls v2 = calls v1"
    by simp
qed

theorem short_circuit_and_idempotence_witness:
  "workspace_step example_env sample_present = (Inr (), sample_present) \<and>
   path_exists (files sample_present) (target_of example_env (LoadSampleFiles None)) \<and>
   \<not> over_write_of (LoadSampleFiles None) \<and>
   (\<exists>w'. run_loader example_env (LoadSampleFiles None) sample_present
            = (Inr (PurePath ''/'' [''w'', ''sample_files'']), w') \<and>
          files w' = files sample_present \<and> calls w' = []) \<and>
   collaborators_keep_entries example_env \<and> setup_makes_workspace example_env \<and>
   path_is_dir (files workspace_only) (workspace_of example_env) \<and>
   (\<exists>v1. run_loader example_env (LoadSampleFiles None) workspace_only
            = (Inr (PurePath ''/'' [''w'', ''sample_files'']), v1) \<and>
          calls v1 = [PullFile ''sample_files.zip'' ''/w/sample_files/sample_files.zip'' ''b'',
                      UnpackArchive ''/w/sample_files/sample_files.zip'' ''/w/sample_files'' ''zip''] \<and>
          (\<exists>v2. run_loader example_env (LoadSampleFiles None) v1
                   = (Inr (PurePath ''/'' [''w'', ''sample_files'']), v2) \<and>
                 files v2 = files v1 \<and> outside v2 = outside v1 \<and> calls v2 = calls v1))"
proof -
  let ?c = "LoadSampleFiles None"
  let ?T = "PurePath ''/'' [''w'', ''sample_files'']"
  have o: "\<not> over_write_of ?c" by simp
  have a: "\<exists>w'. run_loader example_env ?c sample_present = (Inr ?T, w') \<and>
          files w' = files sample_present \<and> calls w' = []"
    using short_circuit_and_idempotence
            [where env = example_env and w = sample_present and ?w0.0 = sample_present and c = ?c,
             THEN conjunct1]
          ex_ws_steps(2) ex_sample_present_facts(1) [of None] o
    by (auto simp: ex_sample_names ex_sample_present_facts)
  obtain v1 where r: "run_loader example_env ?c workspace_only = (Inr ?T, v1)"
    and c: "calls v1 = [PullFile ''sample_files.zip'' ''/w/sample_files/sample_files.zip'' ''b'',
                      UnpackArchive ''/w/sample_files/sample_files.zip'' ''/w/sample_files'' ''zip'']"
    using ex_fresh_run by blast
  have b: "\<exists>v2. run_loader example_env ?c v1 = (Inr ?T, v2) \<and>
                 files v2 = files v1 \<and> outside v2 = outside v1 \<and> calls v2 = calls v1"
    using short_circuit_and_idempotence
            [where env = example_env and v = workspace_only and c = ?c and p = ?T and ?v1.0 = v1,
             THEN conjunct2]
          example_env_keeps example_env_setup ex_workspace_only_facts(1) o r
    by blast
  from a b r c o ex_ws_steps(2) ex_sample_present_facts(1) [of None] example_env_keeps
    example_env_setup ex_workspace_only_facts(1)
  show ?thesis by blast
qed

text \<open>
  C2. For every loader that has reached its download (the workspace block returned, the
  directory is missing or \<^verbatim>\<open>over_write\<close> is set, the directory could be made): if the fetch
  raises an error \<open>e\<close>, or the fetch returns and the extraction raises \<open>e\<close>, the loader
  raises a \<^verbatim>\<open>RuntimeError\<close> whose cause is \<open>e\<close> and whose message names the folder and
  \<^verbatim>\<open>str(e)\<close>, whatever the class of \<open>e\<close>. The storage client was called once, and the
  extractor once or not at all: nothing is tried again. An error is an instance of
  \<^verbatim>\<open>Exception\<close>, which is what the handler \<^verbatim>\<open>except Exception\<close> catches.
\<close>

theorem fetch_and_extract_errors_are_wrapped:
  assumes "workspace_step env w = (Inr (), w0)"
    and "over_write_of c \<or> \<not> path_exists (files w0) (target_of env c)"
    and "mkdir (target_of env c) (files w0) = Inr f1"
    and "ext_pull_file_from_public_s3 env (folder_of c @ ''.zip'') (str (local_zip_of env c))
           (bucket_of env) (f1, outside w0) = (Inl e, (f2, x2))
         \<or> (\<exists>g y. ext_pull_file_from_public_s3 env (folder_of c @ ''.zip'') (str (local_zip_of env c))
                     (bucket_of env) (f1, outside w0) = (Inr (), (g, y)) \<and>
                   ext_unpack_archive env (str (local_zip_of env c)) (str (target_of env c)) ''zip''
                     (g, y) = (Inl e, (f2, x2)))"
    and "exn_is_Exception e"
  shows "\<exists>r w'. run_loader env c w = (Inl r, w') \<and>
           exn_class r = ''RuntimeError'' \<and> exn_is_Exception r \<and> exn_cause r = Some e \<and>
           exn_msg r = ''Failed to download and extract '' @ quoted (folder_of c) @ '': '' @ exn_msg e \<and>
           (calls w' = calls w0 @ [pull_call env c] \<or>
            calls w' = calls w0 @ [pull_call env c, unpack_call env c])"
  using loader_download_raises [OF assms(1,2,3,4)] assms(5)
  by (auto simp: wrapped_def RuntimeError_def)

theorem fetch_and_extract_errors_are_wrapped_witness:
  "workspace_step example_env workspace_only = (Inr (), workspace_only) \<and>
   exn_is_Exception (PyExn ''ReadError'' True ''/w/bad/bad.zip is not a zip file'' None) \<and>
   (\<exists>r w'. run_loader example_env (LoadSelectedSampleFiles (Some ''bad'') None) workspace_only
              = (Inl r, w') \<and>
      exn_class r = ''RuntimeError'' \<and> exn_is_Exception r \<and>
      exn_cause r = Some (PyExn ''ReadError'' True ''/w/bad/bad.zip is not a zip file'' None) \<and>
      exn_msg r = ''Failed to download and extract 'bad': /w/bad/bad.zip is not a zip file'')"
proof -
  let ?c = "LoadSelectedSampleFiles (Some ''bad'') None"
  let ?e = "PyExn ''ReadError'' True ''/w/bad/bad.zip is not a zip file'' None"
  have i: "exn_is_Exception ?e" by simp
  from fetch_and_extract_errors_are_wrapped
         [OF ex_ws_steps(1) ex_bad_facts(1,2) disjI2 i,
          where ?f2.0 = "[PurePath ''/'' [''w''] \<mapsto> Dir,
                          PurePath ''/'' [''w'', ''bad''] \<mapsto> Dir,
                          PurePath ''/'' [''w'', ''bad'', ''bad.zip''] \<mapsto> File (Blob ''junk'')]"
            and ?x2.0 = example_store]
       ex_bad_facts(3,4)
  have "\<exists>r w'. run_loader example_env ?c workspace_only = (Inl r, w') \<and>
      exn_class r = ''RuntimeError'' \<and> exn_is_Exception r \<and> exn_cause r = Some ?e \<and>
      exn_msg r = ''Failed to download and extract '' @ quoted (folder_of ?c) @ '': '' @ exn_msg ?e"
    by blast
  then show ?thesis using ex_ws_steps(1) by (simp add: quoted_def)
qed



text \<open>
  C4. \<^verbatim>\<open>load_voice_sample_files\<close> with \<^verbatim>\<open>small_only\<close> true works with the directory
  \<^verbatim>\<open>voice_sample_files_small\<close> under the workspace root and the object
  \<^verbatim>\<open>voice_small.zip\<close>; with \<^verbatim>\<open>small_only\<close> false, with \<^verbatim>\<open>voice_sample_files\<close> and
  \<^verbatim>\<open>voice_all.zip\<close>. If the directory exists and \<^verbatim>\<open>over_write\<close> is false it is returned.
  Otherwise the directory is made: the download starts from the filesystem that \<^verbatim>\<open>mkdir\<close>
  of that directory has left, in which it is a directory, and the loader ends as that
  download ends; its first call to the storage client asks for that object, to be written
  inside that directory, and the path returned, if one is, is that directory. With a
  storage client and an extractor that keep the entries of the filesystem, the directory
  is a directory in the world the loader leaves, whether it returns or raises. If the
  directory cannot be made, the loader raises what \<^verbatim>\<open>mkdir\<close> raised and fetches nothing.
  Leaving \<^verbatim>\<open>small_only\<close> out is \<^verbatim>\<open>small_only=True\<close>.
\<close>

theorem voice_loader_names:
  assumes "workspace_step env w = (Inr (), w0)"
    and "d = joinpath (Path (cfg_llmware_path env))
               (if small_only then ''voice_sample_files_small'' else ''voice_sample_files'')"
    and "key = (if small_only then ''voice_small.zip'' else ''voice_all.zip'')"
  shows "(path_exists (files w0) d \<and> \<not> over_write \<longrightarrow>
            (\<exists>w'. load_voice_sample_files env (Some over_write) (Some small_only) w = (Inr d, w') \<and>
                  calls w' = calls w0))
         \<and>
         ((over_write \<or> \<not> path_exists (files w0) d) \<and> mkdir d (files w0) = Inr f1 \<longrightarrow>
            path_is_dir f1 d \<and>
            (\<exists>r w' rest. load_voice_sample_files env (Some over_write) (Some small_only) w = (r, w') \<and>
               calls w' = calls w0 @
                  PullFile key (str (joinpath d key)) (cfg_config env ''llmware_sample_files_bucket'')
                  # rest \<and>
               (\<forall>p. r = Inr p \<longrightarrow> p = d)))
         \<and>
         load_voice_sample_files env (Some over_write) None
           = load_voice_sample_files env (Some over_write) (Some True)
         \<and>
         ((over_write \<or> \<not> path_exists (files w0) d) \<and> mkdir d (files w0) = Inr f1 \<longrightarrow>
            (\<exists>v. files v = f1 \<and> outside v = outside w0 \<and> calls v = calls w0 \<and>
               load_voice_sample_files env (Some over_write) (Some small_only) w =
                 (case download_and_unpack (if small_only then ''voice_small'' else ''voice_all'') d
                         env (cfg_config env ''llmware_sample_files_bucket'') v of
                    (Inl e, w') \<Rightarrow> (Inl e, w')
                  | (Inr u, w') \<Rightarrow> (Inr d, w'))))
         \<and>
         ((over_write \<or> \<not> path_exists (files w0) d) \<and> mkdir d (files w0) = Inr f1
            \<and> download_keeps_entries env \<longrightarrow>
            (\<exists>r w'. load_voice_sample_files env (Some over_write) (Some small_only) w = (r, w') \<and>
               path_is_dir (files w') d))
         \<and>
         ((over_write \<or> \<not> path_exists (files w0) d) \<and> mkdir d (files w0) = Inl x \<longrightarrow>
            load_voice_sample_files env (Some over_write) (Some small_only) w = (Inl x, w0))"
proof -
  let ?c = "LoadVoiceSampleFiles (Some over_write) (Some small_only)"
  have t: "target_of env ?c = d" and o: "over_write_of ?c = over_write"
    and k: "folder_of ?c @ ''.zip'' = key"
    and fo: "folder_of ?c = (if small_only then ''voice_small'' else ''voice_all'')"
    using assms(2,3) by (simp_all add: target_of_def workspace_of_def)
  have r: "run_loader env ?c = load_voice_sample_files env (Some over_write) (Some small_only)"
    by simp
  have 1: "path_exists (files w0) d \<and> \<not> over_write \<longrightarrow>
            (\<exists>w'. load_voice_sample_files env (Some over_write) (Some small_only) w = (Inr d, w') \<and>
                  calls w' = calls w0)"
    using run_loader_short [OF assms(1), of ?c] unfolding t o r by auto
  have 2: "(over_write \<or> \<not> path_exists (files w0) d) \<and> mkdir d (files w0) = Inr f1 \<longrightarrow>
            path_is_dir f1 d \<and>
            (\<exists>r w' rest. load_voice_sample_files env (Some over_write) (Some small_only) w = (r, w') \<and>
               calls w' = calls w0 @
                  PullFile key (str (joinpath d key)) (cfg_config env ''llmware_sample_files_bucket'')
                  # rest \<and>
               (\<forall>p. r = Inr p \<longrightarrow> p = d))"
  proof
    assume a: "(over_write \<or> \<not> path_exists (files w0) d) \<and> mkdir d (files w0) = Inr f1"
    then have b: "over_write_of ?c \<or> \<not> path_exists (files w0) (target_of env ?c)"
      and m: "mkdir (target_of env ?c) (files w0) = Inr f1"
      unfolding t o by auto
    from loader_download_calls [OF assms(1) b m] mkdir_is_dir [of d "files w0" f1] a
    show "path_is_dir f1 d \<and>
            (\<exists>r w' rest. load_voice_sample_files env (Some over_write) (Some small_only) w = (r, w') \<and>
               calls w' = calls w0 @
                  PullFile key (str (joinpath d key)) (cfg_config env ''llmware_sample_files_bucket'')
                  # rest \<and>
               (\<forall>p. r = Inr p \<longrightarrow> p = d))"
      unfolding r t pull_call_def local_zip_of_def k bucket_of_def by auto
  qed
  have 3: "load_voice_sample_files env (Some over_write) None
           = load_voice_sample_files env (Some over_write) (Some True)"
    by (simp add: load_voice_sample_files_def)
  have 4: "(over_write \<or> \<not> path_exists (files w0) d) \<and> mkdir d (files w0) = Inr f1 \<longrightarrow>
            (\<exists>v. files v = f1 \<and> outside v = outside w0 \<and> calls v = calls w0 \<and>
               load_voice_sample_files env (Some over_write) (Some small_only) w =
                 (case download_and_unpack (if small_only then ''voice_small'' else ''voice_all'') d
                         env (cfg_config env ''llmware_sample_files_bucket'') v of
                    (Inl e, w') \<Rightarrow> (Inl e, w')
                  | (Inr u, w') \<Rightarrow> (Inr d, w')))"
  proof
    assume a: "(over_write \<or> \<not> path_exists (files w0) d) \<and> mkdir d (files w0) = Inr f1"
    then have b: "over_write_of ?c \<or> \<not> path_exists (files w0) (target_of env ?c)"
      and m: "mkdir (target_of env ?c) (files w0) = Inr f1"
      unfolding t o by auto
    let ?v = "before_download w0 f1 (log w0 @ [LogInfo (download_note ?c)])"
    have "files ?v = f1 \<and> outside ?v = outside w0 \<and> calls ?v = calls w0"
      by (simp add: before_download_def)
    moreover have "load_voice_sample_files env (Some over_write) (Some small_only) w =
                 (case download_and_unpack (if small_only then ''voice_small'' else ''voice_all'') d
                         env (cfg_config env ''llmware_sample_files_bucket'') ?v of
                    (Inl e, w') \<Rightarrow> (Inl e, w')
                  | (Inr u, w') \<Rightarrow> (Inr d, w'))"
      using run_loader_download [OF assms(1) b m] unfolding r t fo bucket_of_def .
    ultimately show "\<exists>v. files v = f1 \<and> outside v = outside w0 \<and> calls v = calls w0 \<and>
               load_voice_sample_files env (Some over_write) (Some small_only) w =
                 (case download_and_unpack (if small_only then ''voice_small'' else ''voice_all'') d
                         env (cfg_config env ''llmware_sample_files_bucket'') v of
                    (Inl e, w') \<Rightarrow> (Inl e, w')
                  | (Inr u, w') \<Rightarrow> (Inr d, w'))"
      by blast
  qed
  have 5: "(over_write \<or> \<not> path_exists (files w0) d) \<and> mkdir d (files w0) = Inr f1
            \<and> download_keeps_entries env \<longrightarrow>
            (\<exists>r w'. load_voice_sample_files env (Some over_write) (Some small_only) w = (r, w') \<and>
               path_is_dir (files w') d)"
  proof
    assume a: "(over_write \<or> \<not> path_exists (files w0) d) \<and> mkdir d (files w0) = Inr f1
            \<and> download_keeps_entries env"
    then have b: "over_write_of ?c \<or> \<not> path_exists (files w0) (target_of env ?c)"
      and m: "mkdir (target_of env ?c) (files w0) = Inr f1"
      and ke: "download_keeps_entries env"
      unfolding t o by auto
    obtain r' w' where e: "run_loader env ?c w = (r', w')" by (metis prod.exhaust)
    from loader_download_leaves_dir [OF ke e assms(1) b m] e
    show "\<exists>r w'. load_voice_sample_files env (Some over_write) (Some small_only) w = (r, w') \<and>
               path_is_dir (files w') d"
      unfolding r t by blast
  qed
  have 6: "(over_write \<or> \<not> path_exists (files w0) d) \<and> mkdir d (files w0) = Inl x \<longrightarrow>
            load_voice_sample_files env (Some over_write) (Some small_only) w = (Inl x, w0)"
  proof
    assume a: "(over_write \<or> \<not> path_exists (files w0) d) \<and> mkdir d (files w0) = Inl x"
    then have b: "over_write_of ?c \<or> \<not> path_exists (files w0) (target_of env ?c)"
      and m: "mkdir (target_of env ?c) (files w0) = Inl x"
      unfolding t o by auto
    from run_loader_mkdir_raises [OF assms(1) b m]
    show "load_voice_sample_files env (Some over_write) (Some small_only) w = (Inl x, w0)"
      unfolding r .
  qed
  from 1 2 3 4 5 6 show ?thesis by blast
qed

theorem voice_loader_names_witness:
  "workspace_step example_env voice_present = (Inr (), voice_present) \<and>
   path_exists (files voice_present) (PurePath ''/'' [''w'', ''voice_sample_files_small'']) \<and>
   (\<exists>w'. load_voice_sample_files example_env (Some False) (Some True) voice_present
            = (Inr (PurePath ''/'' [''w'', ''voice_sample_files_small'']), w') \<and>
          calls w' = []) \<and>
   workspace_step example_env workspace_only = (Inr (), workspace_only) \<and>
   \<not> path_exists (files workspace_only) (PurePath ''/'' [''w'', ''voice_sample_files_small'']) \<and>
   mkdir (PurePath ''/'' [''w'', ''voice_sample_files_small'']) (files workspace_only)
     = Inr [PurePath ''/'' [''w''] \<mapsto> Dir,
            PurePath ''/'' [''w'', ''voice_sample_files_small''] \<mapsto> Dir] \<and>
   (\<exists>r w' rest. load_voice_sample_files example_env (Some False) (Some True) workspace_only = (r, w') \<and>
      calls w' = PullFile ''voice_small.zip'' ''/w/voice_sample_files_small/voice_small.zip'' ''b''
                 # rest) \<and>
   download_keeps_entries example_env \<and>
   (\<exists>w'. load_voice_sample_files example_env (Some False) (Some True) workspace_only
            = (Inr (PurePath ''/'' [''w'', ''voice_sample_files_small'']), w') \<and>
          path_is_dir (files w') (PurePath ''/'' [''w'', ''voice_sample_files_small'']) \<and>
          node_at (files w') (PurePath ''/'' [''w'', ''voice_sample_files_small'', ''a.wav''])
            = Some (File (Blob ''RIFF''))) \<and>
   workspace_step example_env voice_blocked = (Inr (), voice_blocked) \<and>
   mkdir (PurePath ''/'' [''w'', ''voice_sample_files_small'']) (files voice_blocked)
     = Inl (FileExistsError ''/w/voice_sample_files_small'') \<and>
   load_voice_sample_files example_env (Some True) (Some True) voice_blocked
     = (Inl (FileExistsError ''/w/voice_sample_files_small''), voice_blocked)"
proof -
  let ?D = "PurePath ''/'' [''w'', ''voice_sample_files_small'']"
  let ?f1 = "[PurePath ''/'' [''w''] \<mapsto> Dir, ?D \<mapsto> Dir]"
  have d: "?D = joinpath (Path (cfg_llmware_path example_env))
                  (if True then ''voice_sample_files_small'' else ''voice_sample_files'')"
    by (simp add: ex_env ex_paths)
  have k: "''voice_small.zip'' = (if True then ''voice_small.zip'' else ''voice_all.zip'')"
    by simp
  have e: "path_exists (files voice_present) ?D"
    by (simp add: world_eval fs_eval)
  have n: "\<not> path_exists (files workspace_only) ?D"
    by (simp add: world_eval fs_eval)
  have m: "mkdir ?D (files workspace_only) = Inr ?f1"
    by (simp add: world_eval fs_eval)
  have x: "mkdir ?D (files voice_blocked) = Inl (FileExistsError ''/w/voice_sample_files_small'')"
    by (simp add: voice_blocked_def world0_def fs_eval ex_voice_paths)
  from voice_loader_names [OF ex_ws_steps(5) d k, where over_write = False, THEN conjunct1] e
  have a: "\<exists>w'. load_voice_sample_files example_env (Some False) (Some True) voice_present
            = (Inr ?D, w') \<and> calls w' = []"
    by (simp add: world_eval)
  note fresh = voice_loader_names [OF ex_ws_steps(1) d k, where over_write = False
         and ?f1.0 = ?f1]
  from fresh [THEN conjunct2, THEN conjunct1] n m
  have b: "\<exists>r w' rest. load_voice_sample_files example_env (Some False) (Some True) workspace_only
            = (r, w') \<and>
      calls w' = PullFile ''voice_small.zip'' ''/w/voice_sample_files_small/voice_small.zip'' ''b''
                 # rest"
    by (auto simp: ex_env ex_paths world_eval)
  from fresh [THEN conjunct2, THEN conjunct2, THEN conjunct2, THEN conjunct2, THEN conjunct1]
    n m example_env_download_keeps
  obtain r w' where l: "load_voice_sample_files example_env (Some False) (Some True) workspace_only
      = (r, w')" and dd: "path_is_dir (files w') ?D"
    by blast
  from ex_voice_run l obtain
    r': "r = Inr ?D"
    and f: "files w' = [PurePath ''/'' [''w''] \<mapsto> Dir, ?D \<mapsto> Dir,
              PurePath ''/'' [''w'', ''voice_sample_files_small'', ''a.wav''] \<mapsto> File (Blob ''RIFF'')]"
    by auto
  have nn: "node_at (files w') (PurePath ''/'' [''w'', ''voice_sample_files_small'', ''a.wav''])
            = Some (File (Blob ''RIFF''))"
    unfolding f by (simp add: fs_eval)
  from l r' dd nn
  have c: "\<exists>w'. load_voice_sample_files example_env (Some False) (Some True) workspace_only
            = (Inr ?D, w') \<and> path_is_dir (files w') ?D \<and>
          node_at (files w') (PurePath ''/'' [''w'', ''voice_sample_files_small'', ''a.wav''])
            = Some (File (Blob ''RIFF''))"
    by blast
  from voice_loader_names [OF ex_voice_blocked_step d k, where over_write = True
         and x = "FileExistsError ''/w/voice_sample_files_small''",
         THEN conjunct2, THEN conjunct2, THEN conjunct2, THEN conjunct2, THEN conjunct2] x
  have g: "load_voice_sample_files example_env (Some True) (Some True) voice_blocked
     = (Inl (FileExistsError ''/w/voice_sample_files_small''), voice_blocked)"
    by simp
  from a b c e n m x g ex_ws_steps(1,5) ex_voice_blocked_step example_env_download_keeps
  show ?thesis by blast
qed

text \<open>
  C5. Take a call of a loader that raised after it had called the storage client: its
  directory had been made, and the download failed. With collaborators that keep the
  entries of the filesystem, a workspace initialisation that makes the workspace root and a
  workspace root that is not a regular file, every call that follows, of any loader with
  the same directory and \<^verbatim>\<open>over_write\<close> false, returns the path of the directory and calls
  no collaborator: the directory is there, and nothing else about it is looked at.
\<close>

theorem failed_download_leaves_directory_that_short_circuits:
  assumes "collaborators_keep_entries env" and "setup_makes_workspace env"
    and "path_exists (files w) (workspace_of env) \<longrightarrow> path_is_dir (files w) (workspace_of env)"
    and "run_loader env c w = (Inl e, w1)"
    and "network_calls w1 \<noteq> network_calls w"
    and "target_of env c' = target_of env c" and "\<not> over_write_of c'"
  shows "\<exists>w2. run_loader env c' w1 = (Inr (target_of env c), w2) \<and>
           files w2 = files w1 \<and> outside w2 = outside w1 \<and> calls w2 = calls w1"
proof -
  have "path_is_dir (files w1) (target_of env c) \<and> path_is_dir (files w1) (workspace_of env)"
    using assms(4)
  proof (cases rule: loader_outcomes)
    case (workspace_raises e')
    with network_calls_ws_step [OF workspace_raises(1)] assms(5) show ?thesis by simp
  next
    case (present w0)
    then show ?thesis by simp
  next
    case (mkdir_raises w0 e')
    with network_calls_ws_step [OF mkdir_raises(1)] assms(5) show ?thesis by simp
  next
    case (download w0 f1 v rd)
    from loader_target_dir [OF assms(1,4) download(1,2,3)]
      ws_step_makes_dir [OF assms(2,3) download(1)]
    show ?thesis by blast
  qed
  then have t: "path_exists (files w1) (target_of env c')"
    and ws: "path_exists (files w1) (workspace_of env)"
    using assms(6) by (auto simp: path_is_dir_def path_exists_def)
  from run_loader_short [OF ws_step_present [OF ws] t assms(7)] assms(6)
  show ?thesis by simp
qed

theorem failed_download_leaves_directory_that_short_circuits_witness:
  "collaborators_keep_entries example_env \<and> setup_makes_workspace example_env \<and>
   path_is_dir (files workspace_only) (workspace_of example_env) \<and>
   (\<exists>e w1. run_loader example_env (LoadSelectedSampleFiles (Some ''bad'') None) workspace_only
              = (Inl e, w1) \<and>
      network_calls w1 \<noteq> network_calls workspace_only \<and>
      path_exists (files w1) (PurePath ''/'' [''w'', ''bad'', ''bad.zip'']) \<and>
      (\<exists>w2. run_loader example_env (LoadSelectedSampleFiles (Some ''bad'') (Some False)) w1
               = (Inr (PurePath ''/'' [''w'', ''bad'']), w2) \<and>
             files w2 = files w1 \<and> outside w2 = outside w1 \<and> calls w2 = calls w1))"
proof -
  let ?c = "LoadSelectedSampleFiles (Some ''bad'') None"
  let ?c' = "LoadSelectedSampleFiles (Some ''bad'') (Some False)"
  obtain e w1 where r: "run_loader example_env ?c workspace_only = (Inl e, w1)"
    and c: "calls w1 = [PullFile ''bad.zip'' ''/w/bad/bad.zip'' ''b'',
                  UnpackArchive ''/w/bad/bad.zip'' ''/w/bad'' ''zip'']"
    and f: "files w1 = [PurePath ''/'' [''w''] \<mapsto> Dir, PurePath ''/'' [''w'', ''bad''] \<mapsto> Dir,
                    PurePath ''/'' [''w'', ''bad'', ''bad.zip''] \<mapsto> File (Blob ''junk'')]"
    using ex_bad_run by blast
  from c have n: "network_calls w1 \<noteq> network_calls workspace_only"
    by (simp add: network_calls_def world_eval)
  have z: "path_exists (files w1) (PurePath ''/'' [''w'', ''bad'', ''bad.zip''])"
    unfolding f by (simp add: fs_eval)
  have s: "path_exists (files workspace_only) (workspace_of example_env)
             \<longrightarrow> path_is_dir (files workspace_only) (workspace_of example_env)"
    using ex_workspace_only_facts(1) by simp
  from failed_download_leaves_directory_that_short_circuits
         [OF example_env_keeps example_env_setup s r n ex_bad_second_call]
  have "\<exists>w2. run_loader example_env ?c' w1 = (Inr (PurePath ''/'' [''w'', ''bad'']), w2) \<and>
             files w2 = files w1 \<and> outside w2 = outside w1 \<and> calls w2 = calls w1"
    by (simp add: ex_bad_names)
  with r n z example_env_keeps example_env_setup ex_workspace_only_facts(1)
  show ?thesis by blast
qed

text \<open>
  C6. For every folder name, \<^verbatim>\<open>_download_and_unpack\<close> asks the storage client for the object
  named by the folder name followed by \<^verbatim>\<open>.zip\<close>, to be written under that same name inside
  the directory it was given: this is the first call it makes, whatever happens next. When
  \<^verbatim>\<open>load_selected_sample_files\<close> is called without a folder and reaches its download (the
  workspace block returned, the directory is missing or \<^verbatim>\<open>over_write\<close> is set, and the directory
  could be made), the object it asks for is \<^verbatim>\<open>microsoft_ir.zip\<close>.
\<close>

theorem remote_key_is_folder_name_dot_zip:
  "(\<exists>r w' rest. download_and_unpack folder p env b w = (r, w') \<and>
      calls w' = calls w @ PullFile (folder @ ''.zip'') (str (joinpath p (folder @ ''.zip''))) b # rest)
   \<and>
   (workspace_step env v = (Inr (), v0) \<longrightarrow>
    (over_write_of (LoadSelectedSampleFiles None ow)
       \<or> \<not> path_exists (files v0) (joinpath (Path (cfg_llmware_path env)) ''microsoft_ir'')) \<longrightarrow>
    mkdir (joinpath (Path (cfg_llmware_path env)) ''microsoft_ir'') (files v0) = Inr f1 \<longrightarrow>
      (\<exists>r v' rest. load_selected_sample_files env None ow v = (r, v') \<and>
         calls v' = calls v0 @
           PullFile ''microsoft_ir.zip''
             (str (joinpath (joinpath (Path (cfg_llmware_path env)) ''microsoft_ir'')
                    ''microsoft_ir.zip''))
             (cfg_config env ''llmware_sample_files_bucket'') # rest))"
proof (intro conjI impI)
  show "\<exists>r w' rest. download_and_unpack folder p env b w = (r, w') \<and>
      calls w' = calls w @ PullFile (folder @ ''.zip'') (str (joinpath p (folder @ ''.zip''))) b # rest"
    using dl_first_call [of folder p env b w] by blast
next
  let ?c = "LoadSelectedSampleFiles None ow"
  assume a: "workspace_step env v = (Inr (), v0)"
    and b: "over_write_of ?c
       \<or> \<not> path_exists (files v0) (joinpath (Path (cfg_llmware_path env)) ''microsoft_ir'')"
    and m: "mkdir (joinpath (Path (cfg_llmware_path env)) ''microsoft_ir'') (files v0) = Inr f1"
  have t: "target_of env ?c = joinpath (Path (cfg_llmware_path env)) ''microsoft_ir''"
    by (simp add: target_of_def workspace_of_def)
  from loader_download_calls [of env v v0 ?c f1] a b m t
  show "\<exists>r v' rest. load_selected_sample_files env None ow v = (r, v') \<and>
         calls v' = calls v0 @
           PullFile ''microsoft_ir.zip''
             (str (joinpath (joinpath (Path (cfg_llmware_path env)) ''microsoft_ir'')
                    ''microsoft_ir.zip''))
             (cfg_config env ''llmware_sample_files_bucket'') # rest"
    by (auto simp: pull_call_def local_zip_of_def bucket_of_def)
qed

theorem remote_key_is_folder_name_dot_zip_witness:
  "workspace_step example_env workspace_only = (Inr (), workspace_only) \<and>
   \<not> path_exists (files workspace_only) (PurePath ''/'' [''w'', ''microsoft_ir'']) \<and>
   mkdir (PurePath ''/'' [''w'', ''microsoft_ir'']) (files workspace_only)
     = Inr ((files workspace_only)(PurePath ''/'' [''w'', ''microsoft_ir''] \<mapsto> Dir)) \<and>
   (\<exists>r v' rest. load_selected_sample_files example_env None None workspace_only = (r, v') \<and>
      calls v' = PullFile ''microsoft_ir.zip'' ''/w/microsoft_ir/microsoft_ir.zip'' ''b'' # rest)"
proof -
  have p: "joinpath (Path (cfg_llmware_path example_env)) ''microsoft_ir''
             = PurePath ''/'' [''w'', ''microsoft_ir'']"
    by (simp add: example_eval path_eval)
  have h2: "\<not> path_exists (files workspace_only) (PurePath ''/'' [''w'', ''microsoft_ir''])"
    by (simp add: example_eval fs_eval)
  have h3: "mkdir (PurePath ''/'' [''w'', ''microsoft_ir'']) (files workspace_only)
     = Inr ((files workspace_only)(PurePath ''/'' [''w'', ''microsoft_ir''] \<mapsto> Dir))"
    by (simp add: example_eval fs_eval)
  have s: "str (joinpath (PurePath ''/'' [''w'', ''microsoft_ir'']) ''microsoft_ir.zip'')
             = ''/w/microsoft_ir/microsoft_ir.zip''"
    by (simp add: path_eval)
  have c: "cfg_config example_env ''llmware_sample_files_bucket'' = ''b''"
    "calls workspace_only = []"
    by (simp_all add: example_eval)
  from remote_key_is_folder_name_dot_zip
         [of "[]" "PurePath [] []" example_env "[]" workspace_only workspace_only workspace_only None
             "(files workspace_only)(PurePath ''/'' [''w'', ''microsoft_ir''] \<mapsto> Dir)"]
       ws_only_step h2 h3
  show ?thesis unfolding p s c by simp
qed

text \<open>
  C7. When a loader returns a path after it has called the storage client (so the fetch,
  the extraction and the deletion all went through), the temporary archive file, named by
  the folder name followed by \<^verbatim>\<open>.zip\<close> inside the directory, does not exist in the
  filesystem the loader leaves. This holds whatever the collaborators do.
\<close>

theorem archive_file_removed_after_success:
  assumes "run_loader env c w = (Inr q, w')"
    and "network_calls w' \<noteq> network_calls w"
  shows "\<not> path_exists (files w') (joinpath (target_of env c) (folder_of c @ ''.zip''))"
  using assms(1)
proof (cases rule: loader_outcomes)
  case (workspace_raises e)
  then show ?thesis by simp
next
  case (present w0)
  with network_calls_ws_step [OF present(1)] assms(2) show ?thesis
    by (simp add: network_calls_def)
next
  case (mkdir_raises w0 e)
  then show ?thesis by simp
next
  case (download w0 f1 v rd)
  from download(8) have "rd = Inr ()" by (cases rd) simp_all
  with download(7) dl_Inr_removed show ?thesis by blast
qed

theorem archive_file_removed_after_success_witness:
  "\<exists>w'. run_loader example_env (LoadSampleFiles None) workspace_only
            = (Inr (PurePath ''/'' [''w'', ''sample_files'']), w') \<and>
          network_calls w' \<noteq> network_calls workspace_only \<and>
          \<not> path_exists (files w') (PurePath ''/'' [''w'', ''sample_files'', ''sample_files.zip''])"
proof -
  let ?c = "LoadSampleFiles None"
  obtain w' where r: "run_loader example_env ?c workspace_only
      = (Inr (PurePath ''/'' [''w'', ''sample_files'']), w')"
    and c: "calls w' = [PullFile ''sample_files.zip'' ''/w/sample_files/sample_files.zip'' ''b'',
                      UnpackArchive ''/w/sample_files/sample_files.zip'' ''/w/sample_files'' ''zip'']"
    using ex_fresh_run by blast
  from c have n: "network_calls w' \<noteq> network_calls workspace_only"
    by (simp add: network_calls_def world_eval)
  from archive_file_removed_after_success [OF r n]
  have "\<not> path_exists (files w') (PurePath ''/'' [''w'', ''sample_files'', ''sample_files.zip''])"
    by (simp add: ex_sample_names ex_paths)
  with r n show ?thesis by blast
qed

text \<open>
  C8. When the fetch returns and the extraction raises, \<^verbatim>\<open>_download_and_unpack\<close> raises
  and leaves the filesystem exactly as the extractor left it: it makes the two calls and
  removes nothing. So there is a run (an object that is not an archive) in which it raises
  after both calls and the temporary archive file is still there.
\<close>

theorem failed_extraction_leaves_archive_file:
  "(ext_pull_file_from_public_s3 env (folder @ ''.zip'') (str (joinpath p (folder @ ''.zip''))) b
      (files w, outside w) = (Inr (), (f1, x1)) \<longrightarrow>
    ext_unpack_archive env (str (joinpath p (folder @ ''.zip''))) (str p) ''zip'' (f1, x1)
      = (Inl e, (f2, x2)) \<longrightarrow>
      (\<exists>r w'. download_and_unpack folder p env b w = (Inl r, w') \<and>
         files w' = f2 \<and> outside w' = x2 \<and>
         calls w' = calls w @ [PullFile (folder @ ''.zip'') (str (joinpath p (folder @ ''.zip''))) b,
                               UnpackArchive (str (joinpath p (folder @ ''.zip''))) (str p) ''zip'']))
   \<and>
   (\<exists>(env0 :: store env) folder0 p0 b0 w0 r w'.
      download_and_unpack folder0 p0 env0 b0 w0 = (Inl r, w') \<and>
      calls w' = calls w0 @ [PullFile (folder0 @ ''.zip'') (str (joinpath p0 (folder0 @ ''.zip''))) b0,
                             UnpackArchive (str (joinpath p0 (folder0 @ ''.zip''))) (str p0) ''zip''] \<and>
      path_exists (files w') (joinpath p0 (folder0 @ ''.zip'')))"
proof
  show "ext_pull_file_from_public_s3 env (folder @ ''.zip'') (str (joinpath p (folder @ ''.zip''))) b
      (files w, outside w) = (Inr (), (f1, x1)) \<longrightarrow>
    ext_unpack_archive env (str (joinpath p (folder @ ''.zip''))) (str p) ''zip'' (f1, x1)
      = (Inl e, (f2, x2)) \<longrightarrow>
      (\<exists>r w'. download_and_unpack folder p env b w = (Inl r, w') \<and>
         files w' = f2 \<and> outside w' = x2 \<and>
         calls w' = calls w @ [PullFile (folder @ ''.zip'') (str (joinpath p (folder @ ''.zip''))) b,
                               UnpackArchive (str (joinpath p (folder @ ''.zip''))) (str p) ''zip''])"
    using dl_unpack_raises [of env folder p b w f1 x1 e f2 x2] by auto
next
  let ?p = "PurePath ''/'' [''w'', ''bad'']" and ?z = "PurePath ''/'' [''w'', ''bad'', ''bad.zip'']"
  have j: "joinpath ?p (''bad'' @ ''.zip'') = ?z" "str ?z = ''/w/bad/bad.zip''"
    "str ?p = ''/w/bad''" "Path ''/w/bad/bad.zip'' = ?z"
    by (simp_all add: path_eval)
  have e: "ext_pull_file_from_public_s3 example_env = ref_pull"
    "ext_unpack_archive example_env = ref_unpack"
    by (simp_all add: example_env_def ref_env_def)
  have a: "ref_pull ''bad.zip'' ''/w/bad/bad.zip'' ''b'' (files bad_folder_made, outside bad_folder_made)
      = (Inr (), ((files bad_folder_made)(?z \<mapsto> File (Blob ''junk'')), example_store))"
    by (simp add: ref_pull_def j example_store_def bad_folder_made_def world0_def fs_eval)
  have b: "ref_unpack ''/w/bad/bad.zip'' ''/w/bad'' ''zip''
             ((files bad_folder_made)(?z \<mapsto> File (Blob ''junk'')), example_store)
      = (Inl (PyExn ''ReadError'' True ''/w/bad/bad.zip is not a zip file'' None),
         ((files bad_folder_made)(?z \<mapsto> File (Blob ''junk'')), example_store))"
    by (simp add: ref_unpack_def j fs_eval)
  from dl_unpack_raises [of example_env "''bad''" ?p "''b''" bad_folder_made
         "(files bad_folder_made)(?z \<mapsto> File (Blob ''junk''))" example_store
         "PyExn ''ReadError'' True ''/w/bad/bad.zip is not a zip file'' None"
         "(files bad_folder_made)(?z \<mapsto> File (Blob ''junk''))" example_store] a b
  obtain w' where d: "download_and_unpack ''bad'' ?p example_env ''b'' bad_folder_made
        = (Inl (wrapped ''bad'' (PyExn ''ReadError'' True ''/w/bad/bad.zip is not a zip file'' None)), w')"
    and f: "files w' = (files bad_folder_made)(?z \<mapsto> File (Blob ''junk''))"
    and c: "calls w' = calls bad_folder_made @ [PullFile (''bad'' @ ''.zip'') (str (joinpath ?p (''bad'' @ ''.zip''))) ''b'',
              UnpackArchive (str (joinpath ?p (''bad'' @ ''.zip''))) (str ?p) ''zip'']"
    unfolding j e by auto
  have "path_exists (files w') (joinpath ?p (''bad'' @ ''.zip''))"
    unfolding f j by (simp add: fs_eval)
  with d c show "\<exists>(env0 :: store env) folder0 p0 b0 w0 r w'.
      download_and_unpack folder0 p0 env0 b0 w0 = (Inl r, w') \<and>
      calls w' = calls w0 @ [PullFile (folder0 @ ''.zip'') (str (joinpath p0 (folder0 @ ''.zip''))) b0,
                             UnpackArchive (str (joinpath p0 (folder0 @ ''.zip''))) (str p0) ''zip''] \<and>
      path_exists (files w') (joinpath p0 (folder0 @ ''.zip''))"
    by blast
qed

theorem failed_extraction_leaves_archive_file_witness:
  "ext_pull_file_from_public_s3 example_env ''bad.zip'' ''/w/bad/bad.zip'' ''b''
       (files bad_folder_made, outside bad_folder_made)
     = (Inr (), ((files bad_folder_made)
                   (PurePath ''/'' [''w'', ''bad'', ''bad.zip''] \<mapsto> File (Blob ''junk'')),
                 example_store)) \<and>
   ext_unpack_archive example_env ''/w/bad/bad.zip'' ''/w/bad'' ''zip''
       ((files bad_folder_made)(PurePath ''/'' [''w'', ''bad'', ''bad.zip''] \<mapsto> File (Blob ''junk'')),
        example_store)
     = (Inl (PyExn ''ReadError'' True ''/w/bad/bad.zip is not a zip file'' None),
        ((files bad_folder_made)(PurePath ''/'' [''w'', ''bad'', ''bad.zip''] \<mapsto> File (Blob ''junk'')),
         example_store)) \<and>
   (\<exists>r w'. download_and_unpack ''bad'' (PurePath ''/'' [''w'', ''bad'']) example_env ''b''
              bad_folder_made = (Inl r, w') \<and>
      calls w' = [PullFile ''bad.zip'' ''/w/bad/bad.zip'' ''b'',
                  UnpackArchive ''/w/bad/bad.zip'' ''/w/bad'' ''zip''] \<and>
      path_exists (files w') (PurePath ''/'' [''w'', ''bad'', ''bad.zip'']))"
proof -
  let ?p = "PurePath ''/'' [''w'', ''bad'']" and ?z = "PurePath ''/'' [''w'', ''bad'', ''bad.zip'']"
  let ?e = "PyExn ''ReadError'' True ''/w/bad/bad.zip is not a zip file'' None"
  let ?f = "(files bad_folder_made)(?z \<mapsto> File (Blob ''junk''))"
  have a: "ext_pull_file_from_public_s3 example_env ''bad.zip'' ''/w/bad/bad.zip'' ''b''
       (files bad_folder_made, outside bad_folder_made) = (Inr (), (?f, example_store))"
    by (simp add: ex_env ex_paths ref_pull_def example_store_def world_eval fs_eval)
  have b: "ext_unpack_archive example_env ''/w/bad/bad.zip'' ''/w/bad'' ''zip'' (?f, example_store)
     = (Inl ?e, (?f, example_store))"
    by (simp add: ex_env ex_paths ref_unpack_def fs_eval)
  have j: "''bad'' @ ''.zip'' = ''bad.zip''" "joinpath ?p ''bad.zip'' = ?z"
    "str ?z = ''/w/bad/bad.zip''" "str ?p = ''/w/bad''"
    by (simp_all add: ex_paths)
  from failed_extraction_leaves_archive_file
         [where env = example_env and folder = "''bad''" and p = ?p and b = "''b''"
            and w = bad_folder_made and ?f1.0 = ?f and ?x1.0 = example_store and e = ?e
            and ?f2.0 = ?f and ?x2.0 = example_store, THEN conjunct1]
       a b
  have "\<exists>r w'. download_and_unpack ''bad'' ?p example_env ''b'' bad_folder_made = (Inl r, w') \<and>
      files w' = ?f \<and>
      calls w' = calls bad_folder_made @ [PullFile ''bad.zip'' ''/w/bad/bad.zip'' ''b'',
                  UnpackArchive ''/w/bad/bad.zip'' ''/w/bad'' ''zip'']"
    unfolding j by blast
  then have "\<exists>r w'. download_and_unpack ''bad'' ?p example_env ''b'' bad_folder_made = (Inl r, w') \<and>
      calls w' = [PullFile ''bad.zip'' ''/w/bad/bad.zip'' ''b'',
                  UnpackArchive ''/w/bad/bad.zip'' ''/w/bad'' ''zip''] \<and>
      path_exists (files w') ?z"
    by (auto simp: world_eval fs_eval)
  with a b show ?thesis by blast
qed

text \<open>
  C9, amended. Whenever a loader returns a path, the path is the workspace root joined
  with the loader's directory name, whatever the collaborators do. If the call fetched
  nothing, the path exists in the filesystem the loader leaves; the loader has only looked
  whether it exists, so what is there may be a regular file. If the call fetched, and the
  storage client and the extractor keep the entries of the filesystem, the path is a
  directory in the filesystem the loader leaves.
\<close>

theorem returned_path_exists:
  assumes "run_loader env c w = (Inr p, w')"
  shows "p = joinpath (Path (cfg_llmware_path env)) (subdir_of c) \<and>
         (network_calls w' = network_calls w \<longrightarrow> path_exists (files w') p) \<and>
         (download_keeps_entries env \<longrightarrow>
            path_exists (files w') p \<and>
            (network_calls w' \<noteq> network_calls w \<longrightarrow> path_is_dir (files w') p))"
  using assms
proof (cases rule: loader_outcomes)
  case (workspace_raises e)
  then show ?thesis by simp
next
  case (present w0)
  with network_calls_ws_step [OF present(1)] show ?thesis
    by (simp add: target_of_def workspace_of_def network_calls_def)
next
  case (mkdir_raises w0 e)
  then show ?thesis by simp
next
  case (download w0 f1 v rd)
  from download(8) have p: "p = target_of env c" by (cases rd) simp_all
  from dl_adds_network_call [OF download(7)] download(6) network_calls_ws_step [OF download(1)]
  have n: "network_calls w' \<noteq> network_calls w" by (simp add: network_calls_def)
  have "download_keeps_entries env \<longrightarrow> path_is_dir (files w') p"
    using loader_download_leaves_dir [OF _ assms download(1,2,3)] p by blast
  with p n show ?thesis
    by (auto simp: target_of_def workspace_of_def path_is_dir_def path_exists_def)
qed

theorem returned_path_exists_witness:
  "(\<exists>w'. run_loader example_env (LoadSampleFiles None) sample_present
            = (Inr (PurePath ''/'' [''w'', ''sample_files'']), w') \<and>
          network_calls w' = network_calls sample_present \<and>
          path_exists (files w') (PurePath ''/'' [''w'', ''sample_files''])) \<and>
   download_keeps_entries example_env \<and>
   (\<exists>w'. run_loader example_env (LoadSampleFiles None) workspace_only
            = (Inr (PurePath ''/'' [''w'', ''sample_files'']), w') \<and>
          PurePath ''/'' [''w'', ''sample_files'']
            = joinpath (Path (cfg_llmware_path example_env)) (subdir_of (LoadSampleFiles None)) \<and>
          network_calls w' \<noteq> network_calls workspace_only \<and>
          path_exists (files w') (PurePath ''/'' [''w'', ''sample_files'']) \<and>
          path_is_dir (files w') (PurePath ''/'' [''w'', ''sample_files'']))"
proof -
  let ?c = "LoadSampleFiles None"
  let ?T = "PurePath ''/'' [''w'', ''sample_files'']"
  have o: "\<not> over_write_of ?c" by simp
  from run_loader_short [OF ex_ws_steps(2) ex_sample_present_facts(1) [of None] o]
  obtain v' where s: "run_loader example_env ?c sample_present = (Inr ?T, v')"
    and sc: "calls v' = calls sample_present"
    by (auto simp: ex_sample_names)
  from sc have sn: "network_calls v' = network_calls sample_present"
    by (simp add: network_calls_def)
  from returned_path_exists [OF s] sn
  have se: "path_exists (files v') ?T" by blast
  obtain w' where r: "run_loader example_env ?c workspace_only = (Inr ?T, w')"
    and c: "calls w' = [PullFile ''sample_files.zip'' ''/w/sample_files/sample_files.zip'' ''b'',
                      UnpackArchive ''/w/sample_files/sample_files.zip'' ''/w/sample_files'' ''zip'']"
    using ex_fresh_run by blast
  from c have n: "network_calls w' \<noteq> network_calls workspace_only"
    by (simp add: network_calls_def world_eval)
  from returned_path_exists [OF r] n example_env_download_keeps
  have "?T = joinpath (Path (cfg_llmware_path example_env)) (subdir_of ?c) \<and>
        path_exists (files w') ?T \<and> path_is_dir (files w') ?T"
    by blast
  with r n s sn se example_env_download_keeps show ?thesis by blast
qed

text \<open>
  The claim as it was stated fails where a regular file has the name of the directory:
  \<^verbatim>\<open>load_sample_files()\<close> finds that \<^verbatim>\<open>/w/sample_files\<close> exists and returns it, and it is
  not a directory.
\<close>

theorem returned_path_is_a_regular_file_counterexample:
  "fst (run_loader example_env (LoadSampleFiles None) file_in_the_way)
     = Inr (PurePath ''/'' [''w'', ''sample_files'']) \<and>
   node_at (files (snd (run_loader example_env (LoadSampleFiles None) file_in_the_way)))
       (PurePath ''/'' [''w'', ''sample_files'']) = Some (File (Blob ''notes'')) \<and>
   \<not> path_is_dir (files (snd (run_loader example_env (LoadSampleFiles None) file_in_the_way)))
       (PurePath ''/'' [''w'', ''sample_files''])"
proof -
  let ?c = "LoadSampleFiles None"
  have e: "path_exists (files file_in_the_way) (target_of example_env ?c)"
    by (simp add: ex_sample_names world_eval fs_eval)
  have o: "\<not> over_write_of ?c" by simp
  from run_loader_short [OF ex_ws_steps(4) e o]
  obtain w' where r: "run_loader example_env ?c file_in_the_way = (Inr (target_of example_env ?c), w')"
    and f: "files w' = files file_in_the_way"
    by blast
  have n: "node_at (files file_in_the_way) (PurePath ''/'' [''w'', ''sample_files''])
             = Some (File (Blob ''notes''))"
    by (simp add: world_eval fs_eval)
  from r f n show ?thesis by (simp add: ex_sample_names path_is_dir_def)
qed

text \<open>
  C10, amended. With collaborators that keep the entries of the filesystem, a call with
  \<^verbatim>\<open>over_write\<close> true that returns leaves in place every entry that existed before it,
  except the temporary archive file (the folder name followed by \<^verbatim>\<open>.zip\<close>, inside the
  directory), and every directory is still a directory.
\<close>

theorem over_write_keeps_other_entries:
  assumes "collaborators_keep_entries env"
    and "over_write_of c"
    and "run_loader env c w = (Inr p, w')"
    and "path_exists (files w) q"
    and "q \<noteq> joinpath (target_of env c) (folder_of c @ ''.zip'')"
  shows "path_exists (files w') q \<and> (path_is_dir (files w) q \<longrightarrow> path_is_dir (files w') q)"
  using loader_keeps [OF assms(1,3), of q] assms(4,5) unfolding local_zip_of_def by blast

theorem over_write_keeps_other_entries_witness:
  "collaborators_keep_entries example_env \<and>
   over_write_of (LoadSampleFiles (Some True)) \<and>
   path_exists (files stale_archive) (PurePath ''/'' [''w'', ''sample_files'', ''old.txt'']) \<and>
   PurePath ''/'' [''w'', ''sample_files'', ''old.txt'']
     \<noteq> joinpath (target_of example_env (LoadSampleFiles (Some True)))
         (folder_of (LoadSampleFiles (Some True)) @ ''.zip'') \<and>
   (\<exists>w'. run_loader example_env (LoadSampleFiles (Some True)) stale_archive
            = (Inr (PurePath ''/'' [''w'', ''sample_files'']), w') \<and>
          path_exists (files w') (PurePath ''/'' [''w'', ''sample_files'', ''old.txt'']))"
proof -
  let ?c = "LoadSampleFiles (Some True)"
  let ?O = "PurePath ''/'' [''w'', ''sample_files'', ''old.txt'']"
  have o: "over_write_of ?c" by simp
  have e: "path_exists (files stale_archive) ?O"
    by (simp add: world_eval fs_eval)
  have n: "?O \<noteq> joinpath (target_of example_env ?c) (folder_of ?c @ ''.zip'')"
    by (simp add: ex_sample_names ex_paths)
  obtain w' where r: "run_loader example_env ?c stale_archive
      = (Inr (PurePath ''/'' [''w'', ''sample_files'']), w')"
    using ex_stale_run by blast
  from over_write_keeps_other_entries [OF example_env_keeps o r e n]
  have "path_exists (files w') ?O" by blast
  with r o e n example_env_keeps show ?thesis by blast
qed

text \<open>
  The claim as it was stated fails for the temporary archive file itself. A run whose
  extraction failed has left \<^verbatim>\<open>/w/sample_files/sample_files.zip\<close>; it is no entry of the
  archive in the bucket, whose one member is \<^verbatim>\<open>readme.txt\<close>. The next call with
  \<^verbatim>\<open>over_write=True\<close> fetches over it, extracts, and removes it.
\<close>

theorem over_write_removes_stale_archive_counterexample:
  "over_write_of (LoadSampleFiles (Some True)) \<and>
   path_is_dir (files stale_archive) (PurePath ''/'' [''w'', ''sample_files'']) \<and>
   node_at (files stale_archive) (PurePath ''/'' [''w'', ''sample_files'', ''sample_files.zip''])
     = Some (File (Blob ''stale'')) \<and>
   map_of (outside stale_archive) (''b'', ''sample_files.zip'')
     = Some (ZipArchive [(''readme.txt'', ''hello'')]) \<and>
   PurePath ''/'' [''w'', ''sample_files'', ''sample_files.zip'']
     \<noteq> joinpath (PurePath ''/'' [''w'', ''sample_files'']) ''readme.txt'' \<and>
   fst (run_loader example_env (LoadSampleFiles (Some True)) stale_archive)
     = Inr (PurePath ''/'' [''w'', ''sample_files'']) \<and>
   \<not> path_exists (files (snd (run_loader example_env (LoadSampleFiles (Some True)) stale_archive)))
       (PurePath ''/'' [''w'', ''sample_files'', ''sample_files.zip''])"
proof -
  let ?c = "LoadSampleFiles (Some True)"
  obtain w' where r: "run_loader example_env ?c stale_archive
      = (Inr (PurePath ''/'' [''w'', ''sample_files'']), w')"
    and f: "files w' = [PurePath ''/'' [''w''] \<mapsto> Dir,
                    PurePath ''/'' [''w'', ''sample_files''] \<mapsto> Dir,
                    PurePath ''/'' [''w'', ''sample_files'', ''old.txt''] \<mapsto> File (Blob ''old''),
                    PurePath ''/'' [''w'', ''sample_files'', ''readme.txt''] \<mapsto> File (Blob ''hello'')]"
    using ex_stale_run by blast
  have g: "\<not> path_exists (files w') (PurePath ''/'' [''w'', ''sample_files'', ''sample_files.zip''])"
    unfolding f by (simp add: fs_eval)
  have b: "path_is_dir (files stale_archive) (PurePath ''/'' [''w'', ''sample_files''])"
    "node_at (files stale_archive) (PurePath ''/'' [''w'', ''sample_files'', ''sample_files.zip''])
       = Some (File (Blob ''stale''))"
    "map_of (outside stale_archive) (''b'', ''sample_files.zip'')
       = Some (ZipArchive [(''readme.txt'', ''hello'')])"
    "PurePath ''/'' [''w'', ''sample_files'', ''sample_files.zip'']
       \<noteq> joinpath (PurePath ''/'' [''w'', ''sample_files'']) ''readme.txt''"
    by (simp_all add: world_eval fs_eval example_store_def ex_paths)
  from r g b show ?thesis by simp
qed

end
